theory Spec2Isabelle
  imports Complex_Main "HOL-Library.Multiset"
begin

section \<open>Gallery listing route: record normalisation, filtering and ordering\<close>

text \<open>
  A shallow embedding of the gallery route handlers (\<open>GET\<close>, and the write paths of
  \<open>POST\<close> and \<open>PUT\<close>). JavaScript values that the handlers inspect dynamically
  (\<open>typeof\<close>, \<open>Array.isArray\<close>, truthiness) are values of the datatype \<open>json\<close>;
  \<open>undefined\<close> is \<open>None\<close>; everything the handlers obtain from outside (the blob
  store, HTTP fetches, the clock, \<open>Date\<close> parsing, the order the engine's sort chooses
  where the language leaves it open) is a field of the record \<open>world\<close>.
\<close>

subsection \<open>JSON values and JavaScript's dynamic tests\<close>

text \<open>
  What \<open>response.json()\<close> can return. A JSON number is a finite decimal, hence a
  rational. An object is the list of its members in document order; a repeated key
  keeps its last value, as \<open>JSON.parse\<close> does.
\<close>

datatype json =
    JNull
  | JBool bool
  | JNum rat
  | JStr string
  | JArr "json list"
  | JObj "(string \<times> json) list"

text \<open>
  \<open>r[k]\<close> for the property names the handler reads (none of them is an index,
  \<open>length\<close> or a member of a prototype): only an object has such a property; on an
  array or a primitive the read gives \<open>undefined\<close>. The handler never reads a property
  of \<open>null\<close>.
\<close>

fun js_prop :: "json \<Rightarrow> string \<Rightarrow> json option" where
  "js_prop (JObj kvs) k = map_of (rev kvs) k"
| "js_prop _ k = None"

text \<open>JavaScript truthiness of a JSON value (\<open>!v\<close> is its negation).\<close>

fun truthy :: "json \<Rightarrow> bool" where
  "truthy JNull = False"
| "truthy (JBool b) = b"
| "truthy (JNum n) = (n \<noteq> 0)"
| "truthy (JStr s) = (s \<noteq> [])"
| "truthy (JArr xs) = True"
| "truthy (JObj kvs) = True"

text \<open>\<open>typeof v === 'object'\<close>: true of \<open>null\<close>, arrays and objects.\<close>

fun typeof_object :: "json \<Rightarrow> bool" where
  "typeof_object JNull = True"
| "typeof_object (JArr xs) = True"
| "typeof_object (JObj kvs) = True"
| "typeof_object _ = False"

fun isArray :: "json \<Rightarrow> bool" where
  "isArray (JArr xs) = True"
| "isArray _ = False"

text \<open>Truthiness of a \<open>string | undefined\<close>: a non-empty string.\<close>

fun truthy_str :: "string option \<Rightarrow> bool" where
  "truthy_str None = False"
| "truthy_str (Some s) = (s \<noteq> [])"

text \<open>\<open>a || b\<close> where both operands are \<open>string | undefined\<close>.\<close>

definition or_else :: "string option \<Rightarrow> string option \<Rightarrow> string option" where
  "or_else a b = (if truthy_str a then a else b)"

text \<open>\<open>a || d\<close> where the last operand \<open>d\<close> is a string.\<close>

definition or_str :: "string option \<Rightarrow> string \<Rightarrow> string" where
  "or_str a d = (case or_else a (Some d) of Some s \<Rightarrow> s | None \<Rightarrow> d)"

text \<open>\<open>xs[0]\<close>: \<open>undefined\<close> on the empty array.\<close>

fun first_elem :: "'a list \<Rightarrow> 'a option" where
  "first_elem [] = None"
| "first_elem (x # xs) = Some x"

text \<open>\<open>s.endsWith(suffix)\<close>.\<close>

definition endsWith :: "string \<Rightarrow> string \<Rightarrow> bool" where
  "endsWith s suf = (length suf \<le> length s \<and> drop (length s - length suf) s = suf)"

subsection \<open>The record shape \<open>GalleryItem\<close>\<close>

text \<open>
  The interface \<open>GalleryItem\<close>, with the fields as the normaliser fills them: an optional
  field that the normaliser may leave \<open>undefined\<close> is an \<open>option\<close>. The fields \<open>id\<close>,
  \<open>type\<close> and \<open>size\<close> carry the prefix \<open>item_\<close>.
\<close>

record GalleryItem =
  item_id :: string
  title :: string
  content :: string
  author :: string
  imageUrl :: "string option"
  publishDate :: string
  tags :: "string list"
  isPublished :: bool
  item_type :: string
  store :: string
  storeUrl :: "string option"
  appCategory :: string
  status :: string
  name :: string
  developer :: string
  description :: string
  iconUrl :: string
  screenshotUrls :: "string list"
  rating :: rat
  downloads :: string
  version :: string
  item_size :: string
  category :: string
  views :: rat
  likes :: rat
  uploadDate :: string
  isFeatured :: bool
  isEvent :: bool
  adminStoreUrl :: "string option"

subsection \<open>The normaliser \<open>pushItem\<close>\<close>

text \<open>\<open>getStr\<close>: the property when it is a string, else \<open>undefined\<close>.\<close>

definition getStr :: "json \<Rightarrow> string \<Rightarrow> string option" where
  "getStr r k = (case js_prop r k of Some (JStr s) \<Rightarrow> Some s | _ \<Rightarrow> None)"

text \<open>\<open>getArrStr\<close>: the string elements of the property when it is an array, else \<open>[]\<close>.\<close>

fun str_of :: "json \<Rightarrow> string option" where
  "str_of (JStr s) = Some s"
| "str_of _ = None"

definition getArrStr :: "json \<Rightarrow> string \<Rightarrow> string list" where
  "getArrStr r k = (case js_prop r k of Some (JArr xs) \<Rightarrow> List.map_filter str_of xs | _ \<Rightarrow> [])"

text \<open>\<open>typeof r[k] === 'number' ? r[k] : d\<close>.\<close>

definition getNum :: "json \<Rightarrow> string \<Rightarrow> rat \<Rightarrow> rat" where
  "getNum r k d = (case js_prop r k of Some (JNum n) \<Rightarrow> n | _ \<Rightarrow> d)"

text \<open>\<open>r[k] === true\<close>.\<close>

definition isTrue :: "json \<Rightarrow> string \<Rightarrow> bool" where
  "isTrue r k = (js_prop r k = Some (JBool True))"

text \<open>The closure variable \<open>type\<close> of the handler is the first argument.\<close>

definition pickType :: "string \<Rightarrow> json \<Rightarrow> string" where
  "pickType type r =
     (case getStr r ''type'' of
        Some t \<Rightarrow>
          if t = ''gallery'' \<or> t = ''featured'' \<or> t = ''events'' \<or> t = ''normal'' then t
          else (if type \<noteq> [] then type else ''gallery'')
      | None \<Rightarrow> (if type \<noteq> [] then type else ''gallery''))"

definition pickStatus :: "json \<Rightarrow> string" where
  "pickStatus r =
     (case getStr r ''status'' of
        Some s \<Rightarrow>
          if s = ''published'' \<or> s = ''in-review'' \<or> s = ''development'' then s
          else (if isTrue r ''isPublished'' then ''published'' else ''development'')
      | None \<Rightarrow> (if isTrue r ''isPublished'' then ''published'' else ''development''))"

definition pickStore :: "json \<Rightarrow> string" where
  "pickStore r = (if getStr r ''store'' = Some ''app-store'' then ''app-store'' else ''google-play'')"

definition pickCategory :: "string \<Rightarrow> json \<Rightarrow> string" where
  "pickCategory type r =
     (let fallback = (if type = ''featured'' then ''featured''
                      else if type = ''events'' then ''events'' else ''normal'')
      in case getStr r ''appCategory'' of
           Some c \<Rightarrow> if c = ''featured'' \<or> c = ''events'' \<or> c = ''normal'' then c else fallback
         | None \<Rightarrow> fallback)"

definition firstImage :: "json \<Rightarrow> string option" where
  "firstImage r =
     or_else (or_else (getStr r ''imageUrl'') (getStr r ''iconUrl''))
             (first_elem (getArrStr r ''screenshotUrls''))"

text \<open>
  The object literal \<open>normalized\<close>. \<open>now1\<close> and \<open>now2\<close> are what the two
  \<open>new Date().toISOString()\<close> calls return if they are reached (the one of
  \<open>publishDate\<close> comes first).
\<close>

definition normalized :: "string \<Rightarrow> string \<Rightarrow> string \<Rightarrow> json \<Rightarrow> string \<Rightarrow> GalleryItem" where
  "normalized type now1 now2 r i =
     \<lparr> item_id = i,
       title = or_str (or_else (getStr r ''title'') (getStr r ''name'')) [],
       content = or_str (or_else (getStr r ''content'') (getStr r ''description'')) [],
       author = or_str (or_else (getStr r ''author'') (getStr r ''developer'')) [],
       imageUrl = firstImage r,
       publishDate = or_str (or_else (getStr r ''publishDate'') (getStr r ''uploadDate'')) now1,
       tags = getArrStr r ''tags'',
       isPublished = (isTrue r ''isPublished'' \<or> pickStatus r = ''published''),
       item_type = pickType type r,
       store = pickStore r,
       storeUrl = getStr r ''storeUrl'',
       appCategory = pickCategory type r,
       status = pickStatus r,
       name = or_str (or_else (getStr r ''name'') (getStr r ''title'')) [],
       developer = or_str (or_else (getStr r ''developer'') (getStr r ''author'')) [],
       description = or_str (or_else (getStr r ''description'') (getStr r ''content'')) [],
       iconUrl = or_str (or_else (getStr r ''iconUrl'') (firstImage r)) [],
       screenshotUrls =
         (if length (getArrStr r ''screenshotUrls'') > 0 then getArrStr r ''screenshotUrls''
          else (case firstImage r of
                  Some u \<Rightarrow> if u \<noteq> [] then [u] else []
                | None \<Rightarrow> [])),
       rating = getNum r ''rating'' (9 / 2),
       downloads = or_str (getStr r ''downloads'') ''1K+'',
       version = or_str (getStr r ''version'') ''1.0.0'',
       item_size = or_str (getStr r ''size'') ''50MB'',
       category = or_str (getStr r ''category'') [],
       views = getNum r ''views'' 0,
       likes = getNum r ''likes'' 0,
       uploadDate = or_str (or_else (getStr r ''uploadDate'') (getStr r ''publishDate'')) now2,
       isFeatured = isTrue r ''isFeatured'',
       isEvent = isTrue r ''isEvent'',
       adminStoreUrl = getStr r ''adminStoreUrl'' \<rparr>"

text \<open>
  \<open>pushItem\<close>: \<open>None\<close> is the early \<open>return\<close> (nothing is pushed), \<open>Some item\<close> is
  \<open>items.push(normalized)\<close>.
\<close>

definition pushItem :: "string \<Rightarrow> string \<Rightarrow> string \<Rightarrow> json \<Rightarrow> GalleryItem option" where
  "pushItem type now1 now2 raw =
     (if \<not> truthy raw \<or> \<not> typeof_object raw then None
      else case getStr raw ''id'' of
             None \<Rightarrow> None
           | Some i \<Rightarrow> if i = [] then None else Some (normalized type now1 now2 raw i))"

subsection \<open>The outside world of a request\<close>

text \<open>
  A blob as \<open>list\<close> reports it (the two fields the handler reads), and the ways loading
  one blob can go: \<open>fetch\<close> throws, the response is not \<open>ok\<close>, \<open>response.json()\<close>
  throws on a malformed body, or the body parses.
\<close>

record blob =
  pathname :: string
  url :: string

datatype fetched = FetchThrows | NotOk | JsonThrows | Body json

text \<open>
  Everything outside the handler. \<open>list_blobs w p\<close> is what \<open>list({prefix: p})\<close> resolves
  to, \<open>None\<close> when the call rejects. \<open>clock w n\<close> is what the \<open>n\<close>-th evaluation of
  \<open>new Date().toISOString()\<close> during the request returns. \<open>getTime w s\<close> is
  \<open>new Date(s).getTime()\<close>, \<open>None\<close> when the string is not a date (\<open>NaN\<close>).
  \<open>engine_order w items\<close> is the arrangement in which the engine's
  \<open>Array.prototype.sort\<close> leaves the array \<open>items\<close> when the comparator of the handler
  is not a consistent one on it: the language leaves that order to the implementation.
\<close>

record world =
  list_blobs :: "string \<Rightarrow> blob list option"
  fetch :: "string \<Rightarrow> fetched"
  clock :: "nat \<Rightarrow> string"
  getTime :: "string \<Rightarrow> int option"
  engine_order :: "GalleryItem list \<Rightarrow> GalleryItem list"

subsection \<open>Loading the items\<close>

text \<open>
  How many times one accepted \<open>pushItem\<close> call reads the clock: the defaults of
  \<open>publishDate\<close> and \<open>uploadDate\<close> are both reached exactly when neither date field is a
  non-empty string.
\<close>

definition clock_reads :: "json \<Rightarrow> nat" where
  "clock_reads r =
     (if truthy_str (or_else (getStr r ''publishDate'') (getStr r ''uploadDate'')) then 0 else 2)"

text \<open>
  One call of \<open>pushItem\<close> on the state of the loop: the array \<open>items\<close> and the number of
  clock reads so far.
\<close>

definition push_step :: "world \<Rightarrow> string \<Rightarrow> GalleryItem list \<times> nat \<Rightarrow> json \<Rightarrow> GalleryItem list \<times> nat" where
  "push_step w type st raw =
     (case pushItem type (clock w (snd st)) (clock w (snd st + 1)) raw of
        None \<Rightarrow> st
      | Some item \<Rightarrow> (fst st @ [item], snd st + clock_reads raw))"

text \<open>\<open>data && data.id\<close>.\<close>

definition has_truthy_id :: "json \<Rightarrow> bool" where
  "has_truthy_id data =
     (truthy data \<and> (case js_prop data ''id'' of Some v \<Rightarrow> truthy v | None \<Rightarrow> False))"

text \<open>
  The body of the loop over \<open>jsonFiles\<close>: the \<open>try\<close> block with its empty \<open>catch\<close>.
  \<open>data.forEach(pushItem)\<close> is the left fold of \<open>push_step\<close>.
\<close>

definition load_file :: "world \<Rightarrow> string \<Rightarrow> GalleryItem list \<times> nat \<Rightarrow> blob \<Rightarrow> GalleryItem list \<times> nat" where
  "load_file w type st jsonFile =
     (case fetch w (url jsonFile) of
        Body data \<Rightarrow>
          (case data of
             JArr xs \<Rightarrow> foldl (push_step w type) st xs
           | _ \<Rightarrow> if has_truthy_id data then push_step w type st data else st)
      | _ \<Rightarrow> st)"

definition load_items :: "world \<Rightarrow> string \<Rightarrow> blob list \<Rightarrow> GalleryItem list" where
  "load_items w type files = fst (foldl (load_file w type) ([], 0) files)"

subsection \<open>The handler \<open>GET\<close>\<close>

text \<open>The set \<open>folderPaths\<close>, in insertion order (the order the loop visits it).\<close>

definition folderPaths :: "string \<Rightarrow> string list" where
  "folderPaths type =
     (if type = ''gallery'' \<or> type = ''normal'' then [''gallery-gallery'', ''gallery-normal'']
      else if type = ''featured'' then [''gallery-featured'']
      else if type = ''events'' then [''gallery-events'']
      else [])"

text \<open>
  The loop that fills \<open>allBlobs\<close>: one \<open>list\<close> call per folder, with the prefix
  \<open>folderPath/\<close>. A call that rejects leaves the loop (\<open>None\<close>).
\<close>

fun allBlobs :: "world \<Rightarrow> string list \<Rightarrow> blob list option" where
  "allBlobs w [] = Some []"
| "allBlobs w (folderPath # rest) =
     (case list_blobs w (folderPath @ ''/'') of
        None \<Rightarrow> None
      | Some blobs \<Rightarrow>
          (case allBlobs w rest of None \<Rightarrow> None | Some others \<Rightarrow> Some (blobs @ others)))"

definition jsonFiles :: "blob list \<Rightarrow> blob list" where
  "jsonFiles blobs = filter (\<lambda>b. endsWith (pathname b) ''.json'') blobs"

definition filteredItems :: "string \<Rightarrow> GalleryItem list \<Rightarrow> GalleryItem list" where
  "filteredItems type items =
     (if type = ''gallery'' \<or> type = ''normal''
      then filter (\<lambda>item. isPublished item \<or> status item = ''in-review''
                           \<or> status item = ''published'') items
      else filter (\<lambda>item. isPublished item) items)"

text \<open>
  \<open>new Date(a.uploadDate || a.publishDate || 0).getTime()\<close>; \<open>new Date(0)\<close> is the
  epoch.
\<close>

definition sortTime :: "world \<Rightarrow> GalleryItem \<Rightarrow> int option" where
  "sortTime w a =
     (if uploadDate a \<noteq> [] then getTime w (uploadDate a)
      else if publishDate a \<noteq> [] then getTime w (publishDate a)
      else Some 0)"

text \<open>The comparator \<open>(a, b) => bd - ad\<close>; a \<open>NaN\<close> operand gives \<open>NaN\<close> (\<open>None\<close>).\<close>

definition compareFn :: "world \<Rightarrow> GalleryItem \<Rightarrow> GalleryItem \<Rightarrow> int option" where
  "compareFn w a b =
     (case sortTime w a of
        None \<Rightarrow> None
      | Some ad \<Rightarrow> (case sortTime w b of None \<Rightarrow> None | Some bd \<Rightarrow> Some (bd - ad)))"

text \<open>
  The three answers of a comparator, as the language reads them: \<open>a\<close> before \<open>b\<close>
  (a negative number), a tie (zero), \<open>a\<close> after \<open>b\<close> (a positive number).
\<close>

definition belongs_before :: "('a \<Rightarrow> 'a \<Rightarrow> int option) \<Rightarrow> 'a \<Rightarrow> 'a \<Rightarrow> bool" where
  "belongs_before cmp a b = (case cmp a b of Some v \<Rightarrow> v < 0 | None \<Rightarrow> False)"

definition ties :: "('a \<Rightarrow> 'a \<Rightarrow> int option) \<Rightarrow> 'a \<Rightarrow> 'a \<Rightarrow> bool" where
  "ties cmp a b = (cmp a b = Some 0)"

definition belongs_after :: "('a \<Rightarrow> 'a \<Rightarrow> int option) \<Rightarrow> 'a \<Rightarrow> 'a \<Rightarrow> bool" where
  "belongs_after cmp a b = (case cmp a b of Some v \<Rightarrow> v > 0 | None \<Rightarrow> False)"

text \<open>
  A consistent comparator for the elements of an array, as the language defines it: it
  never answers \<open>NaN\<close> on them, every element ties with itself, ties are symmetric, and
  ties, ``before'' and ``after'' are transitive.
\<close>

definition consistent_comparator :: "('a \<Rightarrow> 'a \<Rightarrow> int option) \<Rightarrow> 'a list \<Rightarrow> bool" where
  "consistent_comparator cmp xs =
     (\<forall>a \<in> set xs. ties cmp a a \<and>
        (\<forall>b \<in> set xs. cmp a b \<noteq> None \<and> (ties cmp a b \<longrightarrow> ties cmp b a) \<and>
           (\<forall>c \<in> set xs.
              (ties cmp a b \<and> ties cmp b c \<longrightarrow> ties cmp a c) \<and>
              (belongs_before cmp a b \<and> belongs_before cmp b c \<longrightarrow> belongs_before cmp a c) \<and>
              (belongs_after cmp a b \<and> belongs_after cmp b c \<longrightarrow> belongs_after cmp a c))))"

text \<open>
  The stable arrangement under a comparator, by insertion: an element moves right past a
  neighbour only when the comparator says it belongs after it.
\<close>

fun sort_insert :: "('a \<Rightarrow> 'a \<Rightarrow> int option) \<Rightarrow> 'a \<Rightarrow> 'a list \<Rightarrow> 'a list" where
  "sort_insert cmp x [] = [x]"
| "sort_insert cmp x (y # ys) =
     (if belongs_after cmp x y then y # sort_insert cmp x ys else x # y # ys)"

fun stable_sort :: "('a \<Rightarrow> 'a \<Rightarrow> int option) \<Rightarrow> 'a list \<Rightarrow> 'a list" where
  "stable_sort cmp [] = []"
| "stable_sort cmp (x # xs) = sort_insert cmp x (stable_sort cmp xs)"

text \<open>
  \<open>Array.prototype.sort(comparefn)\<close>. For a consistent comparator the language fixes the
  result: the stable arrangement in which no element stands before one it belongs after.
  For any other comparator (here: as soon as one sort time is \<open>NaN\<close>) the order is
  implementation-defined: the result is the arrangement \<open>engine\<close> of the engine, any
  permutation of the array (an \<open>engine\<close> value that is not a permutation of the array
  stands for leaving it as it is).
\<close>

definition array_sort :: "('a list \<Rightarrow> 'a list) \<Rightarrow> ('a \<Rightarrow> 'a \<Rightarrow> int option) \<Rightarrow> 'a list \<Rightarrow> 'a list" where
  "array_sort engine cmp xs =
     (if consistent_comparator cmp xs then stable_sort cmp xs
      else if mset (engine xs) = mset xs then engine xs
      else xs)"

text \<open>
  The request as the handler reads it: the query parameters of \<open>request.url\<close>, in order;
  \<open>searchParams.get\<close> returns the first value of a name, \<open>null\<close> (\<open>None\<close>) when there
  is none.
\<close>

record request =
  searchParams :: "(string \<times> string) list"

definition searchParams_get :: "request \<Rightarrow> string \<Rightarrow> string option" where
  "searchParams_get req k = map_of (searchParams req) k"

text \<open>
  The response: the status (200 when \<open>NextResponse.json\<close> is given none), the JSON body
  and the \<open>Cache-Control\<close> header. The two error bodies are \<open>{error: 'Type parameter is
  required'}\<close> and the listing-failed message of the \<open>catch\<close> block.
\<close>

datatype error_body = TypeParameterRequired | GalleryListFailed

datatype response_body = ErrorBody error_body | ItemsBody "GalleryItem list"

record response =
  code :: nat
  body :: response_body
  cacheControl :: "string option"

definition GET :: "world \<Rightarrow> request \<Rightarrow> response" where
  "GET w req =
     (case searchParams_get req ''type'' of
        None \<Rightarrow> \<lparr> code = 400, body = ErrorBody TypeParameterRequired, cacheControl = None \<rparr>
      | Some type \<Rightarrow>
          if type = [] then
            \<lparr> code = 400, body = ErrorBody TypeParameterRequired, cacheControl = None \<rparr>
          else
            (case allBlobs w (folderPaths type) of
               None \<Rightarrow> \<lparr> code = 500, body = ErrorBody GalleryListFailed, cacheControl = None \<rparr>
             | Some blobs \<Rightarrow>
                 \<lparr> code = 200,
                   body = ItemsBody (array_sort (engine_order w) (compareFn w)
                            (filteredItems type (load_items w type (jsonFiles blobs)))),
                   cacheControl = Some ''no-store, no-cache, max-age=0, must-revalidate'' \<rparr>))"

subsection \<open>Where \<open>POST\<close> and \<open>PUT\<close> write the JSON blob\<close>

text \<open>
  \<open>jsonFolder\<close> of the two handlers (the template \<open>gallery-${type}\<close> is a
  concatenation), and the key they pass to \<open>put\<close>.
\<close>

definition post_jsonFolder :: "string \<Rightarrow> string" where
  "post_jsonFolder type =
     (if type = ''gallery'' \<or> type = ''normal'' then ''gallery-gallery'' else ''gallery-'' @ type)"

definition put_jsonFolder :: "string \<Rightarrow> string" where
  "put_jsonFolder type = (if type = ''gallery'' then ''gallery-gallery'' else ''gallery-'' @ type)"

definition post_jsonKey :: "string \<Rightarrow> string \<Rightarrow> string" where
  "post_jsonKey type i = post_jsonFolder type @ ''/'' @ (i @ ''.json'')"

definition put_jsonKey :: "string \<Rightarrow> string \<Rightarrow> string" where
  "put_jsonKey type i = put_jsonFolder type @ ''/'' @ (i @ ''.json'')"

subsection \<open>Notions the properties are stated with\<close>

text \<open>The items of a successful listing (none when the response is an error).\<close>

definition listed :: "world \<Rightarrow> request \<Rightarrow> GalleryItem list" where
  "listed w req = (case body (GET w req) of ItemsBody out \<Rightarrow> out | ErrorBody e \<Rightarrow> [])"

text \<open>
  \<open>a\<close> is at least as recent as \<open>b\<close>: the comparison \<open>>=\<close> of the two sort times, which
  is false as soon as one of them is \<open>NaN\<close>.
\<close>

definition not_older :: "world \<Rightarrow> GalleryItem \<Rightarrow> GalleryItem \<Rightarrow> bool" where
  "not_older w a b =
     (case sortTime w a of
        None \<Rightarrow> False
      | Some ad \<Rightarrow> (case sortTime w b of None \<Rightarrow> False | Some bd \<Rightarrow> bd \<le> ad))"

text \<open>A blob whose fetch succeeds and whose body parses.\<close>

definition readable :: "world \<Rightarrow> blob \<Rightarrow> bool" where
  "readable w b = (case fetch w (url b) of Body data \<Rightarrow> True | _ \<Rightarrow> False)"

subsection \<open>Sample raw records\<close>

text \<open>The raw object \<open>{id: "a1", name: "Foo", isPublished: true}\<close>.\<close>

definition raw_a1 :: json where
  "raw_a1 = JObj [(''id'', JStr ''a1''), (''name'', JStr ''Foo''), (''isPublished'', JBool True)]"

text \<open>\<open>{id: "r1", status: "in-review", isPublished: true}\<close>: the two publish signals disagree.\<close>

definition raw_review_flagged :: json where
  "raw_review_flagged =
     JObj [(''id'', JStr ''r1''), (''status'', JStr ''in-review''), (''isPublished'', JBool True)]"

text \<open>\<open>{id: "s1", status: "archived", isPublished: true}\<close>: a status outside the closed set.\<close>

definition raw_archived :: json where
  "raw_archived =
     JObj [(''id'', JStr ''s1''), (''status'', JStr ''archived''), (''isPublished'', JBool True)]"

text \<open>\<open>{id: "m1", title: "", name: "Foo"}\<close>: the modern field is set to the empty string.\<close>

definition raw_blank_title :: json where
  "raw_blank_title = JObj [(''id'', JStr ''m1''), (''title'', JStr []), (''name'', JStr ''Foo'')]"

text \<open>\<open>{id: "m2", title: "New", name: "Old", author: "A", developer: "D"}\<close>.\<close>

definition raw_both_names :: json where
  "raw_both_names =
     JObj [(''id'', JStr ''m2''), (''title'', JStr ''New''), (''name'', JStr ''Old''),
           (''author'', JStr ''A''), (''developer'', JStr ''D'')]"

text \<open>
  \<open>{id: "m3", title: 5, name: "Legacy", author: "", developer: "Dev", content: "",
  description: 7}\<close>: no modern field is a non-empty string.
\<close>

definition raw_legacy_names :: json where
  "raw_legacy_names =
     JObj [(''id'', JStr ''m3''), (''title'', JNum 5), (''name'', JStr ''Legacy''),
           (''author'', JStr []), (''developer'', JStr ''Dev''),
           (''content'', JStr []), (''description'', JNum 7)]"

text \<open>\<open>{id: "a2", title: "Bar"}\<close>: no image field of any kind, no status, no flag.\<close>

definition raw_a2 :: json where
  "raw_a2 = JObj [(''id'', JStr ''a2''), (''title'', JStr ''Bar'')]"

text \<open>\<open>{id: "i1", iconUrl: "icon.png"}\<close>: an icon and no image list.\<close>

definition raw_icon :: json where
  "raw_icon = JObj [(''id'', JStr ''i1''), (''iconUrl'', JStr ''icon.png'')]"

text \<open>\<open>{id: "v1", status: "in-review"}\<close>: in review and not published.\<close>

definition raw_review_only :: json where
  "raw_review_only = JObj [(''id'', JStr ''v1''), (''status'', JStr ''in-review'')]"

text \<open>
  Published records with an \<open>uploadDate\<close>: \<open>old\<close> and \<open>old2\<close> share theirs, that of
  \<open>odd\<close> is not a date.
\<close>

definition raw_old :: json where
  "raw_old = JObj [(''id'', JStr ''old''), (''isPublished'', JBool True),
                   (''uploadDate'', JStr ''2024-01-01T00:00:00.000Z'')]"

definition raw_old2 :: json where
  "raw_old2 = JObj [(''id'', JStr ''old2''), (''isPublished'', JBool True),
                    (''uploadDate'', JStr ''2024-01-01T00:00:00.000Z'')]"

definition raw_odd :: json where
  "raw_odd = JObj [(''id'', JStr ''odd''), (''isPublished'', JBool True),
                   (''uploadDate'', JStr ''soon'')]"

definition raw_new :: json where
  "raw_new = JObj [(''id'', JStr ''new''), (''isPublished'', JBool True),
                   (''uploadDate'', JStr ''2024-01-02T00:00:00.000Z'')]"

subsection \<open>Sample worlds and requests\<close>

text \<open>
  \<open>new Date(s).getTime()\<close> on the date strings of the samples (milliseconds since the
  epoch, UTC); every other string of the samples is not a date.
\<close>

definition sample_getTime :: "string \<Rightarrow> int option" where
  "sample_getTime s =
     (if s = ''2024-01-01T00:00:00.000Z'' then Some 1704067200000
      else if s = ''2024-01-02T00:00:00.000Z'' then Some 1704153600000
      else if s = ''2024-06-01T00:00:00.000Z'' then Some 1717200000000
      else None)"

text \<open>
  A store with one non-empty folder: \<open>files\<close> gives, for each blob of the folder in
  listing order, its file name (also its URL) and how loading it goes. The clock stands
  at 1 June 2024. Under an inconsistent comparator the engine leaves the array as it is.
\<close>

definition sample_world :: "string \<Rightarrow> (string \<times> fetched) list \<Rightarrow> world" where
  "sample_world folder files =
     \<lparr> list_blobs = (\<lambda>p. if p = folder @ ''/''
                          then Some (map (\<lambda>(n, r). \<lparr> pathname = folder @ ''/'' @ n, url = n \<rparr>) files)
                          else Some []),
       fetch = (\<lambda>u. case map_of files u of Some r \<Rightarrow> r | None \<Rightarrow> FetchThrows),
       clock = (\<lambda>n. ''2024-06-01T00:00:00.000Z''),
       getTime = sample_getTime,
       engine_order = (\<lambda>items. items) \<rparr>"

definition dated_world :: world where
  "dated_world = sample_world ''gallery-featured''
     [(''old.json'', Body raw_old), (''odd.json'', Body raw_odd), (''new.json'', Body raw_new)]"

definition valid_dates_world :: world where
  "valid_dates_world = sample_world ''gallery-featured''
     [(''old.json'', Body raw_old), (''new.json'', Body raw_new), (''old2.json'', Body raw_old2)]"

text \<open>
  A gallery folder with a record in review, a malformed blob, an unpublished record, a
  blob whose response is not \<open>ok\<close>, a published record and a blob that is not JSON.
\<close>

definition gallery_world :: world where
  "gallery_world = sample_world ''gallery-gallery''
     [(''v1.json'', Body raw_review_only), (''bad.json'', JsonThrows), (''a2.json'', Body raw_a2),
      (''gone.json'', NotOk), (''a1.json'', Body raw_a1), (''a1.png'', Body raw_old)]"

text \<open>The same store when listing the legacy folder fails.\<close>

definition broken_world :: world where
  "broken_world =
     gallery_world \<lparr> list_blobs :=
       (\<lambda>p. if p = ''gallery-normal/'' then None else list_blobs gallery_world p) \<rparr>"

text \<open>A store whose legacy folder holds the blob an update under \<open>normal\<close> wrote.\<close>

definition legacy_world :: world where
  "legacy_world = sample_world ''gallery-normal'' [(''a1.json'', Body raw_a1)]"

definition featured_request :: request where
  "featured_request = \<lparr> searchParams = [(''type'', ''featured'')] \<rparr>"

definition gallery_request :: request where
  "gallery_request = \<lparr> searchParams = [(''type'', ''gallery'')] \<rparr>"

definition untyped_request :: request where
  "untyped_request = \<lparr> searchParams = [(''page'', ''2'')] \<rparr>"

section \<open>Properties of the normaliser\<close>

subsection \<open>Auxiliary facts\<close>

lemma pushItem_Some:
  "pushItem type now1 now2 raw = Some item \<Longrightarrow>
     \<exists>i. getStr raw ''id'' = Some i \<and> i \<noteq> [] \<and> item = normalized type now1 now2 raw i"
  by (auto simp: pushItem_def split: if_splits option.splits)

lemma getStr_eq: "js_prop r k = Some (JStr s) \<Longrightarrow> getStr r k = Some s"
  by (simp add: getStr_def)

lemma getStr_SomeD: "getStr r k = Some s \<Longrightarrow> js_prop r k = Some (JStr s)"
  by (auto simp: getStr_def split: option.splits json.splits)

lemma item_id_normalized [simp]: "item_id (normalized type now1 now2 r i) = i"
  by (simp add: normalized_def)

lemma status_normalized [simp]: "status (normalized type now1 now2 r i) = pickStatus r"
  by (simp add: normalized_def)

lemma isPublished_normalized [simp]:
  "isPublished (normalized type now1 now2 r i) =
     (isTrue r ''isPublished'' \<or> pickStatus r = ''published'')"
  by (simp add: normalized_def)

lemma pickStatus_closed:
  "pickStatus r = ''published'' \<or> pickStatus r = ''in-review'' \<or> pickStatus r = ''development''"
  unfolding pickStatus_def by (cases "getStr r ''status''") auto

lemma pickStatus_explicit:
  assumes "js_prop r ''status'' = Some (JStr s)"
    and "s = ''published'' \<or> s = ''in-review'' \<or> s = ''development''"
  shows "pickStatus r = s"
  using assms(2) by (auto simp: pickStatus_def getStr_eq [OF assms(1)])

lemma pickStatus_inferred:
  assumes "js_prop r ''status'' \<noteq> Some (JStr ''published'')"
    and "js_prop r ''status'' \<noteq> Some (JStr ''in-review'')"
    and "js_prop r ''status'' \<noteq> Some (JStr ''development'')"
  shows "pickStatus r =
     (if js_prop r ''isPublished'' = Some (JBool True) then ''published'' else ''development'')"
proof (cases "getStr r ''status''")
  case None
  then show ?thesis by (simp add: pickStatus_def isTrue_def)
next
  case (Some s)
  from getStr_SomeD [OF Some] assms
  have "s \<noteq> ''published''" "s \<noteq> ''in-review''" "s \<noteq> ''development''" by auto
  with Some show ?thesis by (simp add: pickStatus_def isTrue_def)
qed

lemma pushItem_not_object: "\<forall>kvs. raw \<noteq> JObj kvs \<Longrightarrow> pushItem type now1 now2 raw = None"
  by (cases raw) (simp_all add: pushItem_def getStr_def)

lemma pushItem_no_string_id:
  assumes "\<forall>s. js_prop raw ''id'' \<noteq> Some (JStr s)"
  shows "pushItem type now1 now2 raw = None"
proof -
  have "getStr raw ''id'' = None"
  proof (cases "getStr raw ''id''")
    case (Some s)
    from getStr_SomeD [OF Some] assms show ?thesis by blast
  qed simp
  then show ?thesis by (simp add: pushItem_def)
qed

lemma pushItem_empty_id:
  "js_prop raw ''id'' = Some (JStr []) \<Longrightarrow> pushItem type now1 now2 raw = None"
  by (simp add: pushItem_def getStr_eq)

text \<open>The three sample records are accepted.\<close>

lemma pushItem_raw_a1:
  "pushItem type now1 now2 raw_a1 = Some (normalized type now1 now2 raw_a1 ''a1'')"
  by (simp add: pushItem_def raw_a1_def getStr_def)

lemma pushItem_raw_review_flagged:
  "pushItem type now1 now2 raw_review_flagged
     = Some (normalized type now1 now2 raw_review_flagged ''r1'')"
  by (simp add: pushItem_def raw_review_flagged_def getStr_def)

lemma pushItem_raw_archived:
  "pushItem type now1 now2 raw_archived = Some (normalized type now1 now2 raw_archived ''s1'')"
  by (simp add: pushItem_def raw_archived_def getStr_def)

subsection \<open>The publish flag\<close>

text \<open>
  Claim C1. For every raw value the normaliser accepts, the record's \<open>isPublished\<close> is
  true exactly when the raw \<open>isPublished\<close> is literally \<open>true\<close> or the resolved
  \<open>status\<close> is \<open>published\<close>. The witness is a record whose two signals disagree
  (status \<open>in-review\<close>, flag \<open>true\<close>): it is published and stays \<open>in-review\<close>.
\<close>

theorem C1_published_latch:
  "pushItem type now1 now2 raw = Some item \<Longrightarrow>
     isPublished item \<longleftrightarrow>
       (js_prop raw ''isPublished'' = Some (JBool True) \<or> status item = ''published'')"
  by (auto dest!: pushItem_Some simp: isTrue_def)

theorem C1_published_latch_witness:
  "pushItem ''gallery'' ''t1'' ''t2'' raw_review_flagged
     = Some (normalized ''gallery'' ''t1'' ''t2'' raw_review_flagged ''r1'') \<and>
   js_prop raw_review_flagged ''isPublished'' = Some (JBool True) \<and>
   status (normalized ''gallery'' ''t1'' ''t2'' raw_review_flagged ''r1'') = ''in-review'' \<and>
   isPublished (normalized ''gallery'' ''t1'' ''t2'' raw_review_flagged ''r1'')"
proof -
  have flag: "js_prop raw_review_flagged ''isPublished'' = Some (JBool True)"
    by (simp add: raw_review_flagged_def)
  have st: "pickStatus raw_review_flagged = ''in-review''"
    by (simp add: pickStatus_def getStr_def raw_review_flagged_def)
  from C1_published_latch [OF pushItem_raw_review_flagged, of "''gallery''" "''t1''" "''t2''"] flag
  have "isPublished (normalized ''gallery'' ''t1'' ''t2'' raw_review_flagged ''r1'')"
    by blast
  with flag st show ?thesis by (simp add: pushItem_raw_review_flagged)
qed

subsection \<open>The status\<close>

text \<open>
  Claim C3. For every raw value the normaliser accepts, the record's \<open>status\<close> is one
  of \<open>published\<close>, \<open>in-review\<close>, \<open>development\<close>; a raw \<open>status\<close> that is one of these
  three strings is taken as it is; any other raw \<open>status\<close> (absent, not a string, or a
  string outside the set) counts as absent, and the status is then \<open>published\<close> when the
  raw \<open>isPublished\<close> is literally \<open>true\<close> and \<open>development\<close> otherwise.
\<close>

theorem C3_status_closed:
  assumes "pushItem type now1 now2 raw = Some item"
  shows "(status item = ''published'' \<or> status item = ''in-review'' \<or> status item = ''development'') \<and>
     (\<forall>s. js_prop raw ''status'' = Some (JStr s) \<and>
          (s = ''published'' \<or> s = ''in-review'' \<or> s = ''development'') \<longrightarrow> status item = s) \<and>
     (js_prop raw ''status'' \<noteq> Some (JStr ''published'') \<and>
      js_prop raw ''status'' \<noteq> Some (JStr ''in-review'') \<and>
      js_prop raw ''status'' \<noteq> Some (JStr ''development'') \<longrightarrow>
      status item = (if js_prop raw ''isPublished'' = Some (JBool True)
                     then ''published'' else ''development''))"
proof -
  from pushItem_Some [OF assms] obtain i where item: "item = normalized type now1 now2 raw i"
    by blast
  have st: "status item = pickStatus raw" by (simp add: item)
  show ?thesis
    unfolding st
    using pickStatus_closed [of raw] pickStatus_explicit [of raw] pickStatus_inferred [of raw]
    by blast
qed

theorem C3_status_closed_witness:
  "pushItem ''gallery'' ''t1'' ''t2'' raw_archived
     = Some (normalized ''gallery'' ''t1'' ''t2'' raw_archived ''s1'') \<and>
   js_prop raw_archived ''status'' = Some (JStr ''archived'') \<and>
   status (normalized ''gallery'' ''t1'' ''t2'' raw_archived ''s1'') = ''published''"
proof -
  have raw: "js_prop raw_archived ''status'' = Some (JStr ''archived'')"
    "js_prop raw_archived ''isPublished'' = Some (JBool True)"
    by (simp_all add: raw_archived_def)
  from C3_status_closed [OF pushItem_raw_archived, of "''gallery''" "''t1''" "''t2''"] raw
  have "status (normalized ''gallery'' ''t1'' ''t2'' raw_archived ''s1'') = ''published''"
    by simp
  with raw show ?thesis by (simp add: pushItem_raw_archived)
qed

subsection \<open>Rejection and the identifier\<close>

text \<open>
  Claim C4. The normaliser produces no record when the raw value is not an object, when
  it has no string \<open>id\<close>, or when its \<open>id\<close> is the empty string; every record it
  produces carries the raw \<open>id\<close>, a non-empty string.
\<close>

theorem C4_reject_or_id:
  "((\<forall>kvs. raw \<noteq> JObj kvs) \<or> (\<forall>s. js_prop raw ''id'' \<noteq> Some (JStr s)) \<or>
      js_prop raw ''id'' = Some (JStr [])
      \<longrightarrow> pushItem type now1 now2 raw = None) \<and>
   (\<forall>item. pushItem type now1 now2 raw = Some item \<longrightarrow>
      item_id item \<noteq> [] \<and> js_prop raw ''id'' = Some (JStr (item_id item)))"
proof (intro conjI impI allI)
  assume "(\<forall>kvs. raw \<noteq> JObj kvs) \<or> (\<forall>s. js_prop raw ''id'' \<noteq> Some (JStr s)) \<or>
      js_prop raw ''id'' = Some (JStr [])"
  then show "pushItem type now1 now2 raw = None"
    using pushItem_not_object pushItem_no_string_id pushItem_empty_id by blast
next
  fix item assume "pushItem type now1 now2 raw = Some item"
  from pushItem_Some [OF this] obtain i where
    i: "getStr raw ''id'' = Some i" "i \<noteq> []" "item = normalized type now1 now2 raw i" by blast
  then show "item_id item \<noteq> []" by simp
  from i getStr_SomeD [OF i(1)] show "js_prop raw ''id'' = Some (JStr (item_id item))" by simp
qed

theorem C4_reject_or_id_witness:
  "pushItem ''gallery'' ''t1'' ''t2'' (JStr ''a1'') = None \<and>
   pushItem ''gallery'' ''t1'' ''t2'' (JObj [(''id'', JNum 7)]) = None \<and>
   pushItem ''gallery'' ''t1'' ''t2'' (JObj [(''id'', JStr [])]) = None \<and>
   item_id (normalized ''gallery'' ''t1'' ''t2'' raw_a1 ''a1'') = ''a1''"
proof -
  have a: "pushItem ''gallery'' ''t1'' ''t2'' (JStr ''a1'') = None"
    using C4_reject_or_id [of "JStr ''a1''" "''gallery''" "''t1''" "''t2''"] by simp
  have b: "pushItem ''gallery'' ''t1'' ''t2'' (JObj [(''id'', JNum 7)]) = None"
    using C4_reject_or_id [of "JObj [(''id'', JNum 7)]" "''gallery''" "''t1''" "''t2''"] by simp
  have c: "pushItem ''gallery'' ''t1'' ''t2'' (JObj [(''id'', JStr [])]) = None"
    using C4_reject_or_id [of "JObj [(''id'', JStr [])]" "''gallery''" "''t1''" "''t2''"] by simp
  have d: "item_id (normalized ''gallery'' ''t1'' ''t2'' raw_a1 ''a1'') = ''a1''"
    using C4_reject_or_id [of raw_a1 "''gallery''" "''t1''" "''t2''"]
      pushItem_raw_a1 [of "''gallery''" "''t1''" "''t2''"]
    by (simp add: raw_a1_def)
  from a b c d show ?thesis by blast
qed

subsection \<open>A scenario\<close>

text \<open>
  Claim C8. The raw object \<open>{id: "a1", name: "Foo", isPublished: true}\<close>, read while
  the category \<open>featured\<close> is listed, is accepted, and its record has title \<open>Foo\<close>, is
  published, has status \<open>published\<close> and type \<open>featured\<close>.
\<close>

theorem C8_scenario:
  "map_option (\<lambda>item. (title item, isPublished item, status item, item_type item))
     (pushItem ''featured'' now1 now2 raw_a1)
   = Some (''Foo'', True, ''published'', ''featured'')"
  by (simp add: pushItem_def normalized_def raw_a1_def getStr_def isTrue_def pickType_def
      pickStatus_def or_else_def or_str_def)

theorem C8_scenario_witness:
  "map_option (\<lambda>item. (title item, isPublished item, status item, item_type item))
     (pushItem ''featured'' ''2024-05-01T00:00:00.000Z'' ''2024-05-01T00:00:00.001Z'' raw_a1)
   = Some (''Foo'', True, ''published'', ''featured'')"
  using C8_scenario [of "''2024-05-01T00:00:00.000Z''" "''2024-05-01T00:00:00.001Z''"] .

subsection \<open>Modern fields and their legacy aliases\<close>

lemma getStr_Some_iff: "getStr r k = Some s \<longleftrightarrow> js_prop r k = Some (JStr s)"
  using getStr_eq getStr_SomeD by blast

lemma getStr_None_iff: "getStr r k = None \<longleftrightarrow> (\<forall>s. js_prop r k \<noteq> Some (JStr s))"
proof (cases "getStr r k")
  case None
  then have "js_prop r k \<noteq> Some (JStr s)" for s
    using getStr_eq [of r k s] by auto
  with None show ?thesis by simp
next
  case (Some s)
  with getStr_SomeD [OF Some] show ?thesis by auto
qed

lemma not_truthy_getStr:
  assumes "\<forall>m. js_prop r k = Some (JStr m) \<longrightarrow> m = []"
  shows "\<not> truthy_str (getStr r k)"
proof (cases "getStr r k")
  case None
  then show ?thesis by simp
next
  case (Some s)
  from getStr_SomeD [OF Some] assms have "s = []" by blast
  with Some show ?thesis by simp
qed

text \<open>The chain \<open>getStr(k) || getStr(k') || ''\<close>, read on the raw properties.\<close>

lemma alias_chain:
  "(\<forall>m. js_prop r k = Some (JStr m) \<and> m \<noteq> [] \<longrightarrow>
       or_str (or_else (getStr r k) (getStr r k')) [] = m) \<and>
   ((\<forall>m. js_prop r k = Some (JStr m) \<longrightarrow> m = []) \<longrightarrow>
       (\<forall>l. js_prop r k' = Some (JStr l) \<longrightarrow>
            or_str (or_else (getStr r k) (getStr r k')) [] = l) \<and>
       ((\<forall>l. js_prop r k' \<noteq> Some (JStr l)) \<longrightarrow>
            or_str (or_else (getStr r k) (getStr r k')) [] = []))"
proof (intro conjI allI impI)
  fix m assume "js_prop r k = Some (JStr m) \<and> m \<noteq> []"
  then have "getStr r k = Some m" "m \<noteq> []" by (simp_all add: getStr_Some_iff)
  then show "or_str (or_else (getStr r k) (getStr r k')) [] = m"
    by (simp add: or_str_def or_else_def)
next
  fix l assume e: "\<forall>m. js_prop r k = Some (JStr m) \<longrightarrow> m = []"
    and "js_prop r k' = Some (JStr l)"
  then have l: "getStr r k' = Some l" by (simp add: getStr_Some_iff)
  from e have "\<not> truthy_str (getStr r k)" by (rule not_truthy_getStr)
  with l show "or_str (or_else (getStr r k) (getStr r k')) [] = l"
    by (simp add: or_str_def or_else_def)
next
  assume e: "\<forall>m. js_prop r k = Some (JStr m) \<longrightarrow> m = []"
    and "\<forall>l. js_prop r k' \<noteq> Some (JStr l)"
  then have l: "getStr r k' = None" by (simp add: getStr_None_iff)
  from e have "\<not> truthy_str (getStr r k)" by (rule not_truthy_getStr)
  with l show "or_str (or_else (getStr r k) (getStr r k')) [] = []"
    by (simp add: or_str_def or_else_def)
qed

text \<open>
  Claim C6, as stated, fails: a modern field set to the empty string loses against its
  legacy alias. For \<open>{id: "m1", title: "", name: "Foo"}\<close> the record's title is the
  legacy \<open>Foo\<close>, not the modern empty string.
\<close>

theorem C6_counterexample:
  "js_prop raw_blank_title ''title'' = Some (JStr []) \<and>
   js_prop raw_blank_title ''name'' = Some (JStr ''Foo'') \<and>
   map_option title (pushItem ''gallery'' ''t1'' ''t2'' raw_blank_title) = Some ''Foo''"
  by (simp add: raw_blank_title_def pushItem_def normalized_def getStr_def or_str_def or_else_def)

text \<open>
  Claim C6, amended. For every raw value the normaliser accepts and each pair of a
  modern field and its legacy alias (\<open>title\<close>/\<open>name\<close>, \<open>author\<close>/\<open>developer\<close>,
  \<open>content\<close>/\<open>description\<close>): when the modern field is a non-empty string, the record
  takes it, whatever the alias holds; when the modern field is the empty string, is not a
  string or is absent, the record takes the alias if that is a string, and the empty
  string otherwise.
\<close>

theorem C6_modern_wins:
  assumes "pushItem type now1 now2 raw = Some item"
  shows
    "((\<forall>m. js_prop raw ''title'' = Some (JStr m) \<and> m \<noteq> [] \<longrightarrow> title item = m) \<and>
      ((\<forall>m. js_prop raw ''title'' = Some (JStr m) \<longrightarrow> m = []) \<longrightarrow>
         (\<forall>l. js_prop raw ''name'' = Some (JStr l) \<longrightarrow> title item = l) \<and>
         ((\<forall>l. js_prop raw ''name'' \<noteq> Some (JStr l)) \<longrightarrow> title item = []))) \<and>
     ((\<forall>m. js_prop raw ''author'' = Some (JStr m) \<and> m \<noteq> [] \<longrightarrow> author item = m) \<and>
      ((\<forall>m. js_prop raw ''author'' = Some (JStr m) \<longrightarrow> m = []) \<longrightarrow>
         (\<forall>l. js_prop raw ''developer'' = Some (JStr l) \<longrightarrow> author item = l) \<and>
         ((\<forall>l. js_prop raw ''developer'' \<noteq> Some (JStr l)) \<longrightarrow> author item = []))) \<and>
     ((\<forall>m. js_prop raw ''content'' = Some (JStr m) \<and> m \<noteq> [] \<longrightarrow> content item = m) \<and>
      ((\<forall>m. js_prop raw ''content'' = Some (JStr m) \<longrightarrow> m = []) \<longrightarrow>
         (\<forall>l. js_prop raw ''description'' = Some (JStr l) \<longrightarrow> content item = l) \<and>
         ((\<forall>l. js_prop raw ''description'' \<noteq> Some (JStr l)) \<longrightarrow> content item = [])))"
proof -
  from pushItem_Some [OF assms] obtain i where item: "item = normalized type now1 now2 raw i"
    by blast
  have t: "title item = or_str (or_else (getStr raw ''title'') (getStr raw ''name'')) []"
    and a: "author item = or_str (or_else (getStr raw ''author'') (getStr raw ''developer'')) []"
    and c: "content item = or_str (or_else (getStr raw ''content'') (getStr raw ''description'')) []"
    by (simp_all add: item normalized_def)
  show ?thesis
    unfolding t a c
    by (intro conjI; rule alias_chain [THEN conjunct1] alias_chain [THEN conjunct2])
qed

lemma pushItem_raw_both_names:
  "pushItem ''gallery'' ''t1'' ''t2'' raw_both_names
      = Some (normalized ''gallery'' ''t1'' ''t2'' raw_both_names ''m2'')"
  by (simp add: pushItem_def raw_both_names_def getStr_def)

lemma pushItem_raw_legacy_names:
  "pushItem ''gallery'' ''t1'' ''t2'' raw_legacy_names
      = Some (normalized ''gallery'' ''t1'' ''t2'' raw_legacy_names ''m3'')"
  by (simp add: pushItem_def raw_legacy_names_def getStr_def)

theorem C6_modern_wins_witness:
  "pushItem ''gallery'' ''t1'' ''t2'' raw_both_names
      = Some (normalized ''gallery'' ''t1'' ''t2'' raw_both_names ''m2'') \<and>
   js_prop raw_both_names ''title'' = Some (JStr ''New'') \<and>
   js_prop raw_both_names ''name'' = Some (JStr ''Old'') \<and>
   title (normalized ''gallery'' ''t1'' ''t2'' raw_both_names ''m2'') = ''New'' \<and>
   pushItem ''gallery'' ''t1'' ''t2'' raw_legacy_names
      = Some (normalized ''gallery'' ''t1'' ''t2'' raw_legacy_names ''m3'') \<and>
   js_prop raw_legacy_names ''title'' = Some (JNum 5) \<and>
   js_prop raw_legacy_names ''name'' = Some (JStr ''Legacy'') \<and>
   title (normalized ''gallery'' ''t1'' ''t2'' raw_legacy_names ''m3'') = ''Legacy'' \<and>
   js_prop raw_legacy_names ''author'' = Some (JStr []) \<and>
   js_prop raw_legacy_names ''developer'' = Some (JStr ''Dev'') \<and>
   author (normalized ''gallery'' ''t1'' ''t2'' raw_legacy_names ''m3'') = ''Dev'' \<and>
   js_prop raw_legacy_names ''content'' = Some (JStr []) \<and>
   js_prop raw_legacy_names ''description'' = Some (JNum 7) \<and>
   content (normalized ''gallery'' ''t1'' ''t2'' raw_legacy_names ''m3'') = []"
proof -
  have both: "js_prop raw_both_names ''title'' = Some (JStr ''New'')"
    "js_prop raw_both_names ''name'' = Some (JStr ''Old'')"
    by (simp_all add: raw_both_names_def)
  have legacy: "js_prop raw_legacy_names ''title'' = Some (JNum 5)"
    "js_prop raw_legacy_names ''name'' = Some (JStr ''Legacy'')"
    "js_prop raw_legacy_names ''author'' = Some (JStr [])"
    "js_prop raw_legacy_names ''developer'' = Some (JStr ''Dev'')"
    "js_prop raw_legacy_names ''content'' = Some (JStr [])"
    "js_prop raw_legacy_names ''description'' = Some (JNum 7)"
    by (simp_all add: raw_legacy_names_def)
  from C6_modern_wins [OF pushItem_raw_both_names] both
  have n: "title (normalized ''gallery'' ''t1'' ''t2'' raw_both_names ''m2'') = ''New''"
    by simp
  from C6_modern_wins [OF pushItem_raw_legacy_names] legacy
  have l: "title (normalized ''gallery'' ''t1'' ''t2'' raw_legacy_names ''m3'') = ''Legacy''"
    "author (normalized ''gallery'' ''t1'' ''t2'' raw_legacy_names ''m3'') = ''Dev''"
    "content (normalized ''gallery'' ''t1'' ''t2'' raw_legacy_names ''m3'') = []"
    by simp_all
  from both legacy n l pushItem_raw_both_names pushItem_raw_legacy_names
  show ?thesis by blast
qed

subsection \<open>Images\<close>

lemma firstImage_cases:
  "(\<forall>u. getStr r ''imageUrl'' = Some u \<and> u \<noteq> [] \<longrightarrow> firstImage r = Some u) \<and>
   (\<not> truthy_str (getStr r ''imageUrl'') \<longrightarrow>
      (\<forall>u. getStr r ''iconUrl'' = Some u \<and> u \<noteq> [] \<longrightarrow> firstImage r = Some u)) \<and>
   (\<not> truthy_str (getStr r ''imageUrl'') \<and> \<not> truthy_str (getStr r ''iconUrl'') \<longrightarrow>
      firstImage r = first_elem (getArrStr r ''screenshotUrls''))"
  by (auto simp: firstImage_def or_else_def)

text \<open>
  Claim C7, as stated, fails in its second half: with no image list and no image at all
  the list of images is empty, not a one-element list. For \<open>{id: "a2", title: "Bar"}\<close>
  the record has no \<open>imageUrl\<close> and \<open>screenshotUrls\<close> is \<open>[]\<close>.
\<close>

theorem C7_counterexample:
  "getArrStr raw_a2 ''screenshotUrls'' = [] \<and>
   map_option imageUrl (pushItem ''gallery'' ''t1'' ''t2'' raw_a2) = Some None \<and>
   map_option screenshotUrls (pushItem ''gallery'' ''t1'' ''t2'' raw_a2) = Some []"
  by (simp add: raw_a2_def pushItem_def normalized_def getStr_def getArrStr_def firstImage_def
      or_else_def)

text \<open>
  Claim C7, amended. For every raw value the normaliser accepts, \<open>imageUrl\<close> is the
  \<open>imageUrl\<close> field when that is a non-empty string, else the \<open>iconUrl\<close> field when that
  is a non-empty string, else the first string element of the \<open>screenshotUrls\<close> array
  (\<open>undefined\<close> when there is none). When the raw value has no image list (no string
  element in \<open>screenshotUrls\<close>), the record's \<open>screenshotUrls\<close> is the one-element list of
  \<open>imageUrl\<close> if that is a non-empty string, and the empty list otherwise; when it has
  one, \<open>screenshotUrls\<close> is that list.
\<close>

theorem C7_images:
  assumes "pushItem type now1 now2 raw = Some item"
  shows "(\<forall>u. getStr raw ''imageUrl'' = Some u \<and> u \<noteq> [] \<longrightarrow> imageUrl item = Some u) \<and>
   (\<not> truthy_str (getStr raw ''imageUrl'') \<longrightarrow>
      (\<forall>u. getStr raw ''iconUrl'' = Some u \<and> u \<noteq> [] \<longrightarrow> imageUrl item = Some u)) \<and>
   (\<not> truthy_str (getStr raw ''imageUrl'') \<and> \<not> truthy_str (getStr raw ''iconUrl'') \<longrightarrow>
      imageUrl item = first_elem (getArrStr raw ''screenshotUrls'')) \<and>
   (getArrStr raw ''screenshotUrls'' = [] \<longrightarrow>
      (\<forall>u. imageUrl item = Some u \<and> u \<noteq> [] \<longrightarrow> screenshotUrls item = [u]) \<and>
      (\<not> truthy_str (imageUrl item) \<longrightarrow> screenshotUrls item = [])) \<and>
   (getArrStr raw ''screenshotUrls'' \<noteq> [] \<longrightarrow>
      screenshotUrls item = getArrStr raw ''screenshotUrls'')"
proof -
  from pushItem_Some [OF assms] obtain i where item: "item = normalized type now1 now2 raw i"
    by blast
  have img: "imageUrl item = firstImage raw" by (simp add: item normalized_def)
  have none: "getArrStr raw ''screenshotUrls'' = [] \<Longrightarrow>
      screenshotUrls item = (case firstImage raw of
                  Some u \<Rightarrow> if u \<noteq> [] then [u] else [] | None \<Rightarrow> [])"
    by (simp add: item normalized_def)
  have some: "getArrStr raw ''screenshotUrls'' \<noteq> [] \<longrightarrow>
      screenshotUrls item = getArrStr raw ''screenshotUrls''"
    by (simp add: item normalized_def)
  have "getArrStr raw ''screenshotUrls'' = [] \<longrightarrow>
      (\<forall>u. imageUrl item = Some u \<and> u \<noteq> [] \<longrightarrow> screenshotUrls item = [u]) \<and>
      (\<not> truthy_str (imageUrl item) \<longrightarrow> screenshotUrls item = [])"
    unfolding img by (cases "firstImage raw") (auto simp: none)
  with firstImage_cases [of raw] some show ?thesis unfolding img by blast
qed

theorem C7_images_witness:
  "pushItem ''gallery'' ''t1'' ''t2'' raw_icon
      = Some (normalized ''gallery'' ''t1'' ''t2'' raw_icon ''i1'') \<and>
   getStr raw_icon ''imageUrl'' = None \<and>
   getStr raw_icon ''iconUrl'' = Some ''icon.png'' \<and>
   getArrStr raw_icon ''screenshotUrls'' = [] \<and>
   imageUrl (normalized ''gallery'' ''t1'' ''t2'' raw_icon ''i1'') = Some ''icon.png'' \<and>
   screenshotUrls (normalized ''gallery'' ''t1'' ''t2'' raw_icon ''i1'') = [''icon.png'']"
proof -
  have p: "pushItem ''gallery'' ''t1'' ''t2'' raw_icon
      = Some (normalized ''gallery'' ''t1'' ''t2'' raw_icon ''i1'')"
    by (simp add: pushItem_def raw_icon_def getStr_def)
  have raw: "getStr raw_icon ''imageUrl'' = None" "getStr raw_icon ''iconUrl'' = Some ''icon.png''"
    "getArrStr raw_icon ''screenshotUrls'' = []"
    by (simp_all add: raw_icon_def getStr_def getArrStr_def)
  from C7_images [OF p] raw
  have img: "imageUrl (normalized ''gallery'' ''t1'' ''t2'' raw_icon ''i1'') = Some ''icon.png''"
    by simp
  from C7_images [OF p] raw img
  have "screenshotUrls (normalized ''gallery'' ''t1'' ''t2'' raw_icon ''i1'') = [''icon.png'']"
    by simp
  with p raw img show ?thesis by simp
qed

section \<open>Properties of the listing\<close>

subsection \<open>The sort\<close>

lemma mset_sort_insert: "mset (sort_insert cmp x ys) = add_mset x (mset ys)"
  by (induction ys) auto

lemma mset_stable_sort: "mset (stable_sort cmp xs) = mset xs"
  by (induction xs) (auto simp: mset_sort_insert)

lemma set_sort_insert: "set (sort_insert cmp x ys) = insert x (set ys)"
  using mset_sort_insert [of cmp x ys, THEN arg_cong, of set_mset] by simp

lemma set_stable_sort: "set (stable_sort cmp xs) = set xs"
  using mset_stable_sort [of cmp xs, THEN arg_cong, of set_mset] by simp

text \<open>Whatever the comparator and the engine, the sort returns a permutation.\<close>

lemma mset_array_sort: "mset (array_sort engine cmp xs) = mset xs"
  by (simp add: array_sort_def mset_stable_sort)

lemma set_array_sort: "set (array_sort engine cmp xs) = set xs"
  using mset_array_sort [of engine cmp xs, THEN arg_cong, of set_mset] by simp

lemma belongs_after_compareFn:
  "belongs_after (compareFn w) a b \<longleftrightarrow>
     (\<exists>ad bd. sortTime w a = Some ad \<and> sortTime w b = Some bd \<and> ad < bd)"
  by (auto simp: belongs_after_def compareFn_def split: option.splits)

lemma not_older_iff:
  "not_older w a b \<longleftrightarrow> (\<exists>ad bd. sortTime w a = Some ad \<and> sortTime w b = Some bd \<and> bd \<le> ad)"
  by (auto simp: not_older_def split: option.splits)

lemma not_older_trans: "not_older w a b \<Longrightarrow> not_older w b c \<Longrightarrow> not_older w a c"
  by (auto simp: not_older_iff)

text \<open>Inserting into a list that is most recent first keeps it so, when all times are numbers.\<close>

lemma sorted_sort_insert:
  assumes "sortTime w x \<noteq> None" and "\<forall>y \<in> set ys. sortTime w y \<noteq> None"
    and "sorted_wrt (not_older w) ys"
  shows "sorted_wrt (not_older w) (sort_insert (compareFn w) x ys)"
  using assms(2,3)
proof (induction ys)
  case Nil
  then show ?case by simp
next
  case (Cons y ys)
  from assms(1) obtain ad where ad: "sortTime w x = Some ad" by auto
  from Cons.prems(1) obtain bd where bd: "sortTime w y = Some bd" by auto
  show ?case
  proof (cases "belongs_after (compareFn w) x y")
    case True
    with ad bd have "not_older w y x" by (auto simp: belongs_after_compareFn not_older_iff)
    with True Cons show ?thesis by (auto simp: set_sort_insert)
  next
    case False
    with ad bd have xy: "not_older w x y" by (auto simp: belongs_after_compareFn not_older_iff)
    with Cons.prems(2) have "\<forall>z \<in> set ys. not_older w x z"
      by (auto intro: not_older_trans)
    with False xy Cons.prems(2) show ?thesis by simp
  qed
qed

lemma sorted_stable_sort:
  "\<forall>x \<in> set xs. sortTime w x \<noteq> None \<Longrightarrow> sorted_wrt (not_older w) (stable_sort (compareFn w) xs)"
  by (induction xs) (auto intro!: sorted_sort_insert simp: set_stable_sort)

text \<open>An element only moves past elements of a different sort time.\<close>

lemma filter_sort_insert:
  "filter (\<lambda>i. sortTime w i = k) (sort_insert (compareFn w) x ys) =
     (if sortTime w x = k then x # filter (\<lambda>i. sortTime w i = k) ys
      else filter (\<lambda>i. sortTime w i = k) ys)"
proof (induction ys)
  case Nil
  show ?case by simp
next
  case (Cons y ys)
  show ?case
  proof (cases "belongs_after (compareFn w) x y")
    case True
    then have "sortTime w y \<noteq> sortTime w x" by (auto simp: belongs_after_compareFn)
    with True Cons show ?thesis by auto
  next
    case False
    then show ?thesis by simp
  qed
qed

lemma filter_stable_sort:
  "filter (\<lambda>i. sortTime w i = k) (stable_sort (compareFn w) xs) = filter (\<lambda>i. sortTime w i = k) xs"
  by (induction xs) (simp_all add: filter_sort_insert)

text \<open>
  The comparator of the handler is consistent on an array exactly when every sort time
  is a number.
\<close>

lemma compareFn_Some:
  "sortTime w a = Some ad \<Longrightarrow> sortTime w b = Some bd \<Longrightarrow> compareFn w a b = Some (bd - ad)"
  by (simp add: compareFn_def)

lemma consistent_compareFn:
  "consistent_comparator (compareFn w) xs \<longleftrightarrow> (\<forall>i \<in> set xs. sortTime w i \<noteq> None)"
proof
  assume c: "consistent_comparator (compareFn w) xs"
  show "\<forall>i \<in> set xs. sortTime w i \<noteq> None"
  proof
    fix i assume "i \<in> set xs"
    with c have "ties (compareFn w) i i" by (simp add: consistent_comparator_def)
    then show "sortTime w i \<noteq> None"
      by (auto simp: ties_def compareFn_def split: option.splits)
  qed
next
  assume v: "\<forall>i \<in> set xs. sortTime w i \<noteq> None"
  have cmp: "\<exists>ad bd. sortTime w a = Some ad \<and> sortTime w b = Some bd \<and>
                compareFn w a b = Some (bd - ad)"
    if "a \<in> set xs" "b \<in> set xs" for a b
  proof -
    from v that obtain ad bd where "sortTime w a = Some ad" "sortTime w b = Some bd"
      by fastforce
    then show ?thesis by (simp add: compareFn_Some)
  qed
  show "consistent_comparator (compareFn w) xs"
    unfolding consistent_comparator_def ties_def belongs_before_def belongs_after_def
  proof (intro ballI conjI impI)
    fix a assume "a \<in> set xs"
    from cmp [OF this this] show "compareFn w a a = Some 0" by auto
  next
    fix a b assume "a \<in> set xs" "b \<in> set xs"
    from cmp [OF this] show "compareFn w a b \<noteq> None" by auto
  next
    fix a b assume ab: "a \<in> set xs" "b \<in> set xs" and "compareFn w a b = Some 0"
    with cmp [OF ab] cmp [OF ab(2,1)] show "compareFn w b a = Some 0" by auto
  next
    fix a b c assume abc: "a \<in> set xs" "b \<in> set xs" "c \<in> set xs"
      and "compareFn w a b = Some 0 \<and> compareFn w b c = Some 0"
    with cmp [OF abc(1,2)] cmp [OF abc(2,3)] cmp [OF abc(1,3)]
    show "compareFn w a c = Some 0" by auto
  next
    fix a b c assume abc: "a \<in> set xs" "b \<in> set xs" "c \<in> set xs"
      and "(case compareFn w a b of None \<Rightarrow> False | Some v \<Rightarrow> v < 0) \<and>
           (case compareFn w b c of None \<Rightarrow> False | Some v \<Rightarrow> v < 0)"
    with cmp [OF abc(1,2)] cmp [OF abc(2,3)] cmp [OF abc(1,3)]
    show "case compareFn w a c of None \<Rightarrow> False | Some v \<Rightarrow> v < 0" by auto
  next
    fix a b c assume abc: "a \<in> set xs" "b \<in> set xs" "c \<in> set xs"
      and "(case compareFn w a b of None \<Rightarrow> False | Some v \<Rightarrow> 0 < v) \<and>
           (case compareFn w b c of None \<Rightarrow> False | Some v \<Rightarrow> 0 < v)"
    with cmp [OF abc(1,2)] cmp [OF abc(2,3)] cmp [OF abc(1,3)]
    show "case compareFn w a c of None \<Rightarrow> False | Some v \<Rightarrow> 0 < v" by auto
  qed
qed

lemma array_sort_consistent:
  "\<forall>i \<in> set xs. sortTime w i \<noteq> None \<Longrightarrow>
     array_sort engine (compareFn w) xs = stable_sort (compareFn w) xs"
  by (simp add: array_sort_def consistent_compareFn)

text \<open>
  With every sort time a number, the stable arrangement of the model is the one of the
  library's stable sort on the key ``minus the sort time'': it is the only arrangement
  that is most recent first and keeps ties in their order.
\<close>

lemma stable_sort_sort_key:
  assumes "\<forall>i \<in> set xs. sortTime w i \<noteq> None"
  shows "stable_sort (compareFn w) xs = sort_key (\<lambda>i. - the (sortTime w i)) xs"
proof (rule sym, rule properties_for_sort_key)
  show "mset (stable_sort (compareFn w) xs) = mset xs" by (rule mset_stable_sort)
next
  fix k assume "k \<in> set (stable_sort (compareFn w) xs)"
  then have k: "k \<in> set xs" by (simp add: set_stable_sort)
  have eq: "(the (sortTime w k) = the (sortTime w i)) = (sortTime w i = sortTime w k)"
    if "i \<in> set xs" for i
  proof -
    from assms k that obtain kd d where "sortTime w k = Some kd" "sortTime w i = Some d"
      by fastforce
    then show ?thesis by auto
  qed
  have "filter (\<lambda>i. - the (sortTime w k) = - the (sortTime w i)) (stable_sort (compareFn w) xs)
      = filter (\<lambda>i. sortTime w i = sortTime w k) (stable_sort (compareFn w) xs)"
    by (rule filter_cong) (simp_all add: eq set_stable_sort)
  also have "\<dots> = filter (\<lambda>i. sortTime w i = sortTime w k) xs"
    by (rule filter_stable_sort)
  also have "\<dots> = filter (\<lambda>i. - the (sortTime w k) = - the (sortTime w i)) xs"
    by (rule filter_cong) (simp_all add: eq)
  finally show "filter (\<lambda>i. - the (sortTime w k) = - the (sortTime w i))
                  (stable_sort (compareFn w) xs)
      = filter (\<lambda>i. - the (sortTime w k) = - the (sortTime w i)) xs" .
next
  from sorted_stable_sort [OF assms]
  have "sorted_wrt (\<lambda>a b. - the (sortTime w a) \<le> - the (sortTime w b))
          (stable_sort (compareFn w) xs)"
    by (rule sorted_wrt_mono_rel [rotated]) (auto simp: not_older_iff)
  then show "sorted (map (\<lambda>i. - the (sortTime w i)) (stable_sort (compareFn w) xs))"
    by (simp add: sorted_map)
qed

subsection \<open>Loading\<close>

text \<open>Every loaded record with status \<open>published\<close> is published: it comes from \<open>pushItem\<close>.\<close>

lemma push_step_inv:
  assumes "\<forall>i \<in> set (fst st). status i = ''published'' \<longrightarrow> isPublished i"
  shows "\<forall>i \<in> set (fst (push_step w type st raw)). status i = ''published'' \<longrightarrow> isPublished i"
proof (cases "pushItem type (clock w (snd st)) (clock w (snd st + 1)) raw")
  case None
  with assms show ?thesis by (simp add: push_step_def)
next
  case (Some item)
  from pushItem_Some [OF Some] have "status item = ''published'' \<longrightarrow> isPublished item"
    by auto
  with Some assms show ?thesis by (simp add: push_step_def)
qed

lemma foldl_push_step_inv:
  "\<forall>i \<in> set (fst st). status i = ''published'' \<longrightarrow> isPublished i \<Longrightarrow>
   \<forall>i \<in> set (fst (foldl (push_step w type) st raws)). status i = ''published'' \<longrightarrow> isPublished i"
proof (induction raws arbitrary: st)
  case Nil
  then show ?case by simp
next
  case (Cons raw raws)
  from Cons.IH [OF push_step_inv [OF Cons.prems]] show ?case by simp
qed

lemma load_file_inv:
  assumes "\<forall>i \<in> set (fst st). status i = ''published'' \<longrightarrow> isPublished i"
  shows "\<forall>i \<in> set (fst (load_file w type st f)). status i = ''published'' \<longrightarrow> isPublished i"
proof (cases "fetch w (url f)")
  case (Body data)
  show ?thesis
  proof (cases data)
    case (JArr xs)
    with Body foldl_push_step_inv [OF assms] show ?thesis by (simp add: load_file_def)
  qed (use Body assms push_step_inv [OF assms] in \<open>simp_all add: load_file_def\<close>)
qed (use assms in \<open>simp_all add: load_file_def\<close>)

lemma foldl_load_file_inv:
  "\<forall>i \<in> set (fst st). status i = ''published'' \<longrightarrow> isPublished i \<Longrightarrow>
   \<forall>i \<in> set (fst (foldl (load_file w type) st fs)). status i = ''published'' \<longrightarrow> isPublished i"
proof (induction fs arbitrary: st)
  case Nil
  then show ?case by simp
next
  case (Cons f fs)
  from Cons.IH [OF load_file_inv [OF Cons.prems]] show ?case by simp
qed

lemma load_items_inv:
  "\<forall>i \<in> set (load_items w type files). status i = ''published'' \<longrightarrow> isPublished i"
  unfolding load_items_def by (rule foldl_load_file_inv) simp

text \<open>A blob that cannot be read leaves the state of the loop as it was.\<close>

lemma load_file_unreadable: "\<not> readable w f \<Longrightarrow> load_file w type st f = st"
  by (cases "fetch w (url f)") (simp_all add: readable_def load_file_def)

lemma foldl_load_file_readable:
  "foldl (load_file w type) st files = foldl (load_file w type) st (filter (readable w) files)"
  by (induction files arbitrary: st) (simp_all add: load_file_unreadable)

lemma allBlobs_None_iff:
  "allBlobs w fs = None \<longleftrightarrow> (\<exists>f \<in> set fs. list_blobs w (f @ ''/'') = None)"
  by (induction fs) (auto split: option.splits)

subsection \<open>The filter\<close>

lemma filteredItems_gallery:
  assumes "type = ''gallery'' \<or> type = ''normal''"
    and "\<forall>i \<in> set items. status i = ''published'' \<longrightarrow> isPublished i"
  shows "filteredItems type items
     = filter (\<lambda>i. isPublished i \<or> status i = ''in-review'') items"
proof -
  have "filter (\<lambda>item. isPublished item \<or> status item = ''in-review''
                        \<or> status item = ''published'') items
      = filter (\<lambda>i. isPublished i \<or> status i = ''in-review'') items"
    using assms(2) by (intro filter_cong) auto
  with assms(1) show ?thesis by (auto simp: filteredItems_def)
qed

lemma filteredItems_other:
  "type \<noteq> ''gallery'' \<Longrightarrow> type \<noteq> ''normal'' \<Longrightarrow> filteredItems type items = filter isPublished items"
  by (simp add: filteredItems_def)

lemma GET_ok:
  assumes "searchParams_get req ''type'' = Some type" and "type \<noteq> []"
    and "allBlobs w (folderPaths type) = Some blobs"
  shows "GET w req = \<lparr> code = 200,
           body = ItemsBody (array_sort (engine_order w) (compareFn w)
                    (filteredItems type (load_items w type (jsonFiles blobs)))),
           cacheControl = Some ''no-store, no-cache, max-age=0, must-revalidate'' \<rparr>"
  using assms by (simp add: GET_def)

text \<open>Evaluating the handler on the sample worlds.\<close>

lemmas eval_defs = listed_def GET_def searchParams_get_def folderPaths_def jsonFiles_def endsWith_def
  load_items_def load_file_def has_truthy_id_def push_step_def clock_reads_def
  pushItem_def normalized_def getStr_def getArrStr_def getNum_def isTrue_def
  pickType_def pickStatus_def pickStore_def pickCategory_def firstImage_def or_else_def or_str_def
  filteredItems_def array_sort_def consistent_compareFn sortTime_def compareFn_def
  belongs_after_def sample_world_def sample_getTime_def

lemmas sample_defs = raw_a1_def raw_a2_def raw_review_only_def raw_old_def raw_old2_def raw_odd_def
  raw_new_def
  featured_request_def gallery_request_def untyped_request_def

lemma allBlobs_gallery_world:
  "allBlobs gallery_world (folderPaths ''gallery'') =
     Some [\<lparr> pathname = ''gallery-gallery/v1.json'', url = ''v1.json'' \<rparr>,
           \<lparr> pathname = ''gallery-gallery/bad.json'', url = ''bad.json'' \<rparr>,
           \<lparr> pathname = ''gallery-gallery/a2.json'', url = ''a2.json'' \<rparr>,
           \<lparr> pathname = ''gallery-gallery/gone.json'', url = ''gone.json'' \<rparr>,
           \<lparr> pathname = ''gallery-gallery/a1.json'', url = ''a1.json'' \<rparr>,
           \<lparr> pathname = ''gallery-gallery/a1.png'', url = ''a1.png'' \<rparr>]"
  by (simp add: gallery_world_def sample_world_def folderPaths_def)

lemma listed_gallery_world:
  "map (\<lambda>i. (item_id i, isPublished i, status i)) (listed gallery_world gallery_request)
     = [(''v1'', False, ''in-review''), (''a1'', True, ''published'')]"
  by (simp add: eval_defs sample_defs gallery_world_def)

lemma loaded_gallery_world:
  "map (\<lambda>i. (item_id i, isPublished i, status i))
     (load_items gallery_world ''gallery''
        (jsonFiles (the (allBlobs gallery_world (folderPaths ''gallery'')))))
     = [(''v1'', False, ''in-review''), (''a2'', False, ''development''),
        (''a1'', True, ''published'')]"
  unfolding allBlobs_gallery_world
  by (simp add: eval_defs sample_defs gallery_world_def)

subsection \<open>What the listing keeps\<close>

text \<open>
  Claim C2. When the listing succeeds, the returned records are exactly (with
  multiplicity) the loaded records the filter admits: for \<open>gallery\<close> and \<open>normal\<close> those
  that are published or have status \<open>in-review\<close>, for \<open>featured\<close> and \<open>events\<close> those that
  are published.
\<close>

theorem C2_listing_filter:
  assumes "searchParams_get req ''type'' = Some type" and "type \<noteq> []"
    and "allBlobs w (folderPaths type) = Some blobs"
  shows "\<exists>out. body (GET w req) = ItemsBody out \<and>
     (type = ''gallery'' \<or> type = ''normal'' \<longrightarrow>
        mset out = mset (filter (\<lambda>i. isPublished i \<or> status i = ''in-review'')
                          (load_items w type (jsonFiles blobs)))) \<and>
     (type = ''featured'' \<or> type = ''events'' \<longrightarrow>
        mset out = mset (filter isPublished (load_items w type (jsonFiles blobs))))"
proof -
  let ?items = "load_items w type (jsonFiles blobs)"
  let ?out = "array_sort (engine_order w) (compareFn w) (filteredItems type ?items)"
  have b: "body (GET w req) = ItemsBody ?out"
    by (simp add: GET_ok [OF assms])
  have g: "type = ''gallery'' \<or> type = ''normal'' \<longrightarrow>
        mset ?out = mset (filter (\<lambda>i. isPublished i \<or> status i = ''in-review'') ?items)"
    using filteredItems_gallery [OF _ load_items_inv, of type w type "jsonFiles blobs"]
    by (simp add: mset_array_sort)
  have f: "type = ''featured'' \<or> type = ''events'' \<longrightarrow>
        mset ?out = mset (filter isPublished ?items)"
    by (auto simp: mset_array_sort filteredItems_other)
  from b g f show ?thesis by blast
qed

theorem C2_listing_filter_witness:
  "searchParams_get gallery_request ''type'' = Some ''gallery'' \<and>
   allBlobs gallery_world (folderPaths ''gallery'') \<noteq> None \<and>
   map (\<lambda>i. (item_id i, isPublished i, status i))
     (load_items gallery_world ''gallery''
        (jsonFiles (the (allBlobs gallery_world (folderPaths ''gallery'')))))
     = [(''v1'', False, ''in-review''), (''a2'', False, ''development''),
        (''a1'', True, ''published'')] \<and>
   mset (listed gallery_world gallery_request)
     = mset (filter (\<lambda>i. isPublished i \<or> status i = ''in-review'')
         (load_items gallery_world ''gallery''
            (jsonFiles (the (allBlobs gallery_world (folderPaths ''gallery''))))))"
proof -
  have t: "searchParams_get gallery_request ''type'' = Some ''gallery''"
    by (simp add: searchParams_get_def gallery_request_def)
  have ne: "''gallery'' \<noteq> []" by simp
  from C2_listing_filter [OF t ne allBlobs_gallery_world]
  have "mset (listed gallery_world gallery_request)
     = mset (filter (\<lambda>i. isPublished i \<or> status i = ''in-review'')
         (load_items gallery_world ''gallery''
            (jsonFiles (the (allBlobs gallery_world (folderPaths ''gallery''))))))"
    by (auto simp: listed_def allBlobs_gallery_world)
  with t loaded_gallery_world show ?thesis by (simp add: allBlobs_gallery_world)
qed

subsection \<open>The order of the listing\<close>

text \<open>
  Claim C5, as stated, fails: a record whose date string is not a date has the sort time
  \<open>NaN\<close>, the comparator then answers \<open>NaN\<close>, and the listing is not in
  non-increasing order. With the published records \<open>old\<close> (1 January 2024), \<open>odd\<close>
  (\<open>uploadDate: "soon"\<close>) and \<open>new\<close> (2 January 2024) encountered in this order, and
  an engine that leaves this array as it is, the listing returns them in this order:
  \<open>old\<close> stands before the more recent \<open>new\<close>.
\<close>

theorem C5_counterexample:
  "map item_id (listed dated_world featured_request) = [''old'', ''odd'', ''new''] \<and>
   map (sortTime dated_world) (listed dated_world featured_request)
     = [Some 1704067200000, None, Some 1704153600000] \<and>
   \<not> sorted_wrt (not_older dated_world) (listed dated_world featured_request)"
proof -
  have ids: "map item_id (listed dated_world featured_request) = [''old'', ''odd'', ''new'']"
    by (simp add: eval_defs sample_defs dated_world_def)
  have ts: "map (sortTime dated_world) (listed dated_world featured_request)
     = [Some 1704067200000, None, Some 1704153600000]"
    by (simp add: eval_defs sample_defs dated_world_def)
  then obtain a b c where l: "listed dated_world featured_request = [a, b, c]"
    and t: "sortTime dated_world a = Some 1704067200000" "sortTime dated_world c = Some 1704153600000"
    by auto
  have "\<not> not_older dated_world a c" by (simp add: not_older_def t)
  with l ids ts show ?thesis by simp
qed

text \<open>
  The failure does not depend on the arrangement the engine chooses under a comparator
  that answers \<open>NaN\<close>: no arrangement of two or more records, one of which has no sort
  time, is most recent first.
\<close>

lemma no_order_with_NaN:
  assumes "x \<in> set ys" and "sortTime w x = None" and "2 \<le> length ys"
  shows "\<not> sorted_wrt (not_older w) ys"
proof
  assume s: "sorted_wrt (not_older w) ys"
  from assms(1) obtain k where k: "k < length ys" "ys ! k = x"
    by (auto simp: in_set_conv_nth)
  from assms(3) k(1) obtain l where l: "l < length ys" "l \<noteq> k"
    by (cases "k = 0") (auto intro: that [of 0] that [of 1])
  show False
  proof (cases "k < l")
    case True
    with s l(1) have "not_older w (ys ! k) (ys ! l)" by (simp add: sorted_wrt_iff_nth_less)
    with k(2) assms(2) show False by (simp add: not_older_def)
  next
    case False
    with l(2) have "l < k" by simp
    with s k(1) have "not_older w (ys ! l) (ys ! k)" by (simp add: sorted_wrt_iff_nth_less)
    with k(2) assms(2) show False by (simp add: not_older_def split: option.splits)
  qed
qed

text \<open>
  Claim C5, amended. When the listing succeeds and the date of every returned record is
  a date, the returned sequence is most recent first (non-increasing sort time), and the
  records of one and the same sort time stand in their encounter order (the order in
  which they were loaded). (When some date is not a date, the order is the engine's.)
\<close>

theorem C5_sorted_stable:
  assumes "searchParams_get req ''type'' = Some type" and "type \<noteq> []"
    and "allBlobs w (folderPaths type) = Some blobs"
  shows "\<exists>out. body (GET w req) = ItemsBody out \<and>
     ((\<forall>i \<in> set out. sortTime w i \<noteq> None) \<longrightarrow>
        sorted_wrt (not_older w) out \<and>
        (\<forall>k. filter (\<lambda>i. sortTime w i = k) out =
             filter (\<lambda>i. sortTime w i = k)
               (filteredItems type (load_items w type (jsonFiles blobs)))))"
proof -
  let ?kept = "filteredItems type (load_items w type (jsonFiles blobs))"
  let ?out = "array_sort (engine_order w) (compareFn w) ?kept"
  have b: "body (GET w req) = ItemsBody ?out"
    by (simp add: GET_ok [OF assms])
  have "sorted_wrt (not_older w) ?out \<and>
        (\<forall>k. filter (\<lambda>i. sortTime w i = k) ?out = filter (\<lambda>i. sortTime w i = k) ?kept)"
    if "\<forall>i \<in> set ?out. sortTime w i \<noteq> None"
  proof -
    from that have v: "\<forall>i \<in> set ?kept. sortTime w i \<noteq> None"
      by (simp add: set_array_sort)
    show ?thesis
      unfolding array_sort_consistent [OF v]
      using sorted_stable_sort [OF v] by (simp add: filter_stable_sort)
  qed
  with b show ?thesis by blast
qed

lemma allBlobs_valid_dates_world:
  "allBlobs valid_dates_world (folderPaths ''featured'') =
     Some [\<lparr> pathname = ''gallery-featured/old.json'', url = ''old.json'' \<rparr>,
           \<lparr> pathname = ''gallery-featured/new.json'', url = ''new.json'' \<rparr>,
           \<lparr> pathname = ''gallery-featured/old2.json'', url = ''old2.json'' \<rparr>]"
  by (simp add: valid_dates_world_def sample_world_def folderPaths_def)

lemma loaded_valid_dates_world:
  "map item_id (filteredItems ''featured'' (load_items valid_dates_world ''featured''
      (jsonFiles (the (allBlobs valid_dates_world (folderPaths ''featured''))))))
     = [''old'', ''new'', ''old2'']"
  unfolding allBlobs_valid_dates_world
  by (simp add: eval_defs sample_defs valid_dates_world_def)

lemma listed_valid_dates_world:
  "map item_id (listed valid_dates_world featured_request) = [''new'', ''old'', ''old2'']"
  "map (sortTime valid_dates_world) (listed valid_dates_world featured_request)
     = [Some 1704153600000, Some 1704067200000, Some 1704067200000]"
  by (simp_all add: eval_defs sample_defs valid_dates_world_def)

theorem C5_sorted_stable_witness:
  "searchParams_get featured_request ''type'' = Some ''featured'' \<and>
   allBlobs valid_dates_world (folderPaths ''featured'') \<noteq> None \<and>
   map item_id (filteredItems ''featured'' (load_items valid_dates_world ''featured''
      (jsonFiles (the (allBlobs valid_dates_world (folderPaths ''featured''))))))
     = [''old'', ''new'', ''old2''] \<and>
   map item_id (listed valid_dates_world featured_request) = [''new'', ''old'', ''old2''] \<and>
   map (sortTime valid_dates_world) (listed valid_dates_world featured_request)
     = [Some 1704153600000, Some 1704067200000, Some 1704067200000] \<and>
   sorted_wrt (not_older valid_dates_world) (listed valid_dates_world featured_request) \<and>
   filter (\<lambda>i. sortTime valid_dates_world i = Some 1704067200000)
       (listed valid_dates_world featured_request)
     = filter (\<lambda>i. sortTime valid_dates_world i = Some 1704067200000)
         (filteredItems ''featured'' (load_items valid_dates_world ''featured''
            (jsonFiles (the (allBlobs valid_dates_world (folderPaths ''featured''))))))"
proof -
  have t: "searchParams_get featured_request ''type'' = Some ''featured''"
    by (simp add: searchParams_get_def featured_request_def)
  have ne: "''featured'' \<noteq> []" by simp
  note a = allBlobs_valid_dates_world
  from C5_sorted_stable [OF t ne a] obtain out
    where out: "body (GET valid_dates_world featured_request) = ItemsBody out"
      and s: "(\<forall>i \<in> set out. sortTime valid_dates_world i \<noteq> None) \<longrightarrow>
                sorted_wrt (not_older valid_dates_world) out \<and>
                (\<forall>k. filter (\<lambda>i. sortTime valid_dates_world i = k) out =
                   filter (\<lambda>i. sortTime valid_dates_world i = k)
                     (filteredItems ''featured'' (load_items valid_dates_world ''featured''
                        (jsonFiles [\<lparr> pathname = ''gallery-featured/old.json'', url = ''old.json'' \<rparr>,
           \<lparr> pathname = ''gallery-featured/new.json'', url = ''new.json'' \<rparr>,
           \<lparr> pathname = ''gallery-featured/old2.json'', url = ''old2.json'' \<rparr>]))))"
    by blast
  from out have l: "listed valid_dates_world featured_request = out" by (simp add: listed_def)
  have "\<forall>t \<in> set (map (sortTime valid_dates_world) (listed valid_dates_world featured_request)).
          t \<noteq> None"
    unfolding listed_valid_dates_world(2) by simp
  then have "\<forall>i \<in> set out. sortTime valid_dates_world i \<noteq> None"
    unfolding l by simp
  with s l have "sorted_wrt (not_older valid_dates_world) (listed valid_dates_world featured_request)"
    and "filter (\<lambda>i. sortTime valid_dates_world i = Some 1704067200000)
       (listed valid_dates_world featured_request)
     = filter (\<lambda>i. sortTime valid_dates_world i = Some 1704067200000)
         (filteredItems ''featured'' (load_items valid_dates_world ''featured''
            (jsonFiles (the (allBlobs valid_dates_world (folderPaths ''featured''))))))"
    by (simp_all add: a)
  with t loaded_valid_dates_world listed_valid_dates_world show ?thesis by (simp add: a)
qed

subsection \<open>Errors of the listing\<close>

text \<open>
  Claim C9. The handler is total (every throw of the source is a value of the model) and
  answers as follows. Without a \<open>type\<close> parameter (or with an empty one) it answers 400
  with an error body. With one, if any of the \<open>list\<close> calls fails it answers 500 with
  an error body and no items at all; if all succeed it answers 200 with a list of items,
  whatever happens to the single blobs. A blob that cannot be read (the fetch throws, the
  response is not \<open>ok\<close>, the body is malformed) is skipped: the loaded items are those of
  the readable blobs alone.
\<close>

theorem C9_responses:
  "(searchParams_get req ''type'' = None \<or> searchParams_get req ''type'' = Some [] \<longrightarrow>
      GET w req = \<lparr> code = 400, body = ErrorBody TypeParameterRequired, cacheControl = None \<rparr>) \<and>
   (\<forall>type. searchParams_get req ''type'' = Some type \<and> type \<noteq> [] \<longrightarrow>
      ((\<exists>f \<in> set (folderPaths type). list_blobs w (f @ ''/'') = None) \<longrightarrow>
         GET w req = \<lparr> code = 500, body = ErrorBody GalleryListFailed, cacheControl = None \<rparr>) \<and>
      ((\<forall>f \<in> set (folderPaths type). list_blobs w (f @ ''/'') \<noteq> None) \<longrightarrow>
         code (GET w req) = 200 \<and> (\<exists>out. body (GET w req) = ItemsBody out))) \<and>
   (\<forall>type files. load_items w type files = load_items w type (filter (readable w) files))"
proof (intro conjI allI impI)
  assume "searchParams_get req ''type'' = None \<or> searchParams_get req ''type'' = Some []"
  then show "GET w req
      = \<lparr> code = 400, body = ErrorBody TypeParameterRequired, cacheControl = None \<rparr>"
    by (auto simp: GET_def)
next
  fix type
  assume t: "searchParams_get req ''type'' = Some type \<and> type \<noteq> []"
    and "\<exists>f \<in> set (folderPaths type). list_blobs w (f @ ''/'') = None"
  then have "allBlobs w (folderPaths type) = None" by (simp add: allBlobs_None_iff)
  with t show "GET w req
      = \<lparr> code = 500, body = ErrorBody GalleryListFailed, cacheControl = None \<rparr>"
    by (simp add: GET_def)
next
  fix type
  assume t: "searchParams_get req ''type'' = Some type \<and> type \<noteq> []"
    and "\<forall>f \<in> set (folderPaths type). list_blobs w (f @ ''/'') \<noteq> None"
  then have "allBlobs w (folderPaths type) \<noteq> None" by (simp add: allBlobs_None_iff)
  then obtain blobs where "allBlobs w (folderPaths type) = Some blobs" by auto
  with t have g: "GET w req = \<lparr> code = 200,
           body = ItemsBody (array_sort (engine_order w) (compareFn w)
                    (filteredItems type (load_items w type (jsonFiles blobs)))),
           cacheControl = Some ''no-store, no-cache, max-age=0, must-revalidate'' \<rparr>"
    by (simp add: GET_ok)
  show "code (GET w req) = 200" by (simp add: g)
  show "\<exists>out. body (GET w req) = ItemsBody out" by (simp add: g)
next
  fix type files
  show "load_items w type files = load_items w type (filter (readable w) files)"
    unfolding load_items_def by (rule arg_cong [OF foldl_load_file_readable])
qed

lemma type_gallery_request: "searchParams_get gallery_request ''type'' = Some ''gallery''"
  by (simp add: searchParams_get_def gallery_request_def)

lemma readable_gallery_world:
  "filter (readable gallery_world) (jsonFiles (the (allBlobs gallery_world (folderPaths ''gallery''))))
     = [\<lparr> pathname = ''gallery-gallery/v1.json'', url = ''v1.json'' \<rparr>,
        \<lparr> pathname = ''gallery-gallery/a2.json'', url = ''a2.json'' \<rparr>,
        \<lparr> pathname = ''gallery-gallery/a1.json'', url = ''a1.json'' \<rparr>]"
  unfolding allBlobs_gallery_world
  by (simp add: jsonFiles_def endsWith_def readable_def gallery_world_def sample_world_def)

theorem C9_responses_witness:
  "searchParams_get untyped_request ''type'' = None \<and>
   code (GET gallery_world untyped_request) = 400 \<and>
   body (GET gallery_world untyped_request) = ErrorBody TypeParameterRequired \<and>
   list_blobs broken_world ''gallery-gallery/'' \<noteq> None \<and>
   list_blobs broken_world ''gallery-normal/'' = None \<and>
   code (GET broken_world gallery_request) = 500 \<and>
   body (GET broken_world gallery_request) = ErrorBody GalleryListFailed \<and>
   code (GET gallery_world gallery_request) = 200 \<and>
   load_items gallery_world ''gallery''
       (jsonFiles (the (allBlobs gallery_world (folderPaths ''gallery''))))
     = load_items gallery_world ''gallery''
         [\<lparr> pathname = ''gallery-gallery/v1.json'', url = ''v1.json'' \<rparr>,
          \<lparr> pathname = ''gallery-gallery/a2.json'', url = ''a2.json'' \<rparr>,
          \<lparr> pathname = ''gallery-gallery/a1.json'', url = ''a1.json'' \<rparr>]"
proof -
  have u: "searchParams_get untyped_request ''type'' = None"
    by (simp add: searchParams_get_def untyped_request_def)
  have l: "list_blobs broken_world ''gallery-gallery/'' \<noteq> None"
    "list_blobs broken_world ''gallery-normal/'' = None"
    by (simp_all add: broken_world_def gallery_world_def sample_world_def)
  have ok: "\<forall>f \<in> set (folderPaths ''gallery''). list_blobs gallery_world (f @ ''/'') \<noteq> None"
    by (simp add: folderPaths_def gallery_world_def sample_world_def)
  have bad: "\<exists>f \<in> set (folderPaths ''gallery''). list_blobs broken_world (f @ ''/'') = None"
    using l(2) by (simp add: folderPaths_def)
  from C9_responses [of untyped_request gallery_world] u
  have a: "code (GET gallery_world untyped_request) = 400"
    "body (GET gallery_world untyped_request) = ErrorBody TypeParameterRequired"
    by simp_all
  from C9_responses [of gallery_request broken_world] type_gallery_request bad
  have b: "code (GET broken_world gallery_request) = 500"
    "body (GET broken_world gallery_request) = ErrorBody GalleryListFailed"
    by simp_all
  from C9_responses [of gallery_request gallery_world] type_gallery_request ok
  have c: "code (GET gallery_world gallery_request) = 200"
    by simp
  from C9_responses [of gallery_request gallery_world]
  have "load_items gallery_world ''gallery''
       (jsonFiles (the (allBlobs gallery_world (folderPaths ''gallery''))))
     = load_items gallery_world ''gallery'' (filter (readable gallery_world)
         (jsonFiles (the (allBlobs gallery_world (folderPaths ''gallery'')))))"
    by blast
  then have d: "load_items gallery_world ''gallery''
       (jsonFiles (the (allBlobs gallery_world (folderPaths ''gallery''))))
     = load_items gallery_world ''gallery''
         [\<lparr> pathname = ''gallery-gallery/v1.json'', url = ''v1.json'' \<rparr>,
          \<lparr> pathname = ''gallery-gallery/a2.json'', url = ''a2.json'' \<rparr>,
          \<lparr> pathname = ''gallery-gallery/a1.json'', url = ''a1.json'' \<rparr>]"
    unfolding readable_gallery_world .
  from u l a b c d show ?thesis by blast
qed

subsection \<open>Written blobs and the folders the listing reads\<close>

lemma endsWith_append: "endsWith (xs @ suf) suf"
  by (simp add: endsWith_def)

lemma jsonKey_endsWith:
  "endsWith (post_jsonKey type i) ''.json''" "endsWith (put_jsonKey type i) ''.json''"
proof -
  have "post_jsonKey type i = (post_jsonFolder type @ ''/'' @ i) @ ''.json''"
    by (simp add: post_jsonKey_def)
  then show "endsWith (post_jsonKey type i) ''.json''" by (simp only: endsWith_append)
  have "put_jsonKey type i = (put_jsonFolder type @ ''/'' @ i) @ ''.json''"
    by (simp add: put_jsonKey_def)
  then show "endsWith (put_jsonKey type i) ''.json''" by (simp only: endsWith_append)
qed

lemma folderPaths_gallery_normal:
  "t = ''gallery'' \<or> t = ''normal'' \<Longrightarrow> folderPaths t = [''gallery-gallery'', ''gallery-normal'']"
  by (auto simp: folderPaths_def)

lemma allBlobs_two:
  assumes "allBlobs w [f1, f2] = Some blobs"
  shows "\<exists>l1 l2. list_blobs w (f1 @ ''/'') = Some l1 \<and> list_blobs w (f2 @ ''/'') = Some l2 \<and>
           blobs = l1 @ l2"
  using assms by (auto split: option.splits)

text \<open>
  Claim C10. For the categories \<open>gallery\<close> and \<open>normal\<close>: create writes to
  \<open>gallery-gallery\<close> for both; update writes to \<open>gallery-gallery\<close> for \<open>gallery\<close> and to the
  legacy \<open>gallery-normal\<close> for \<open>normal\<close>, so the two handlers differ on \<open>normal\<close>; the listing
  of either category reads exactly the folders \<open>gallery-gallery\<close> and \<open>gallery-normal\<close>, which
  contain both write targets; and a blob under the written key that the store lists in the
  written folder is among the JSON files the listing loads.
\<close>

theorem C10_written_blob_listed:
  assumes "t = ''gallery'' \<or> t = ''normal''" and "t' = ''gallery'' \<or> t' = ''normal''"
  shows "post_jsonFolder t = ''gallery-gallery'' \<and>
     put_jsonFolder ''gallery'' = ''gallery-gallery'' \<and>
     put_jsonFolder ''normal'' = ''gallery-normal'' \<and>
     post_jsonFolder ''normal'' \<noteq> put_jsonFolder ''normal'' \<and>
     set (folderPaths t') = {''gallery-gallery'', ''gallery-normal''} \<and>
     post_jsonFolder t \<in> set (folderPaths t') \<and>
     put_jsonFolder t \<in> set (folderPaths t') \<and>
     (\<forall>w blobs dir b.
        allBlobs w (folderPaths t') = Some blobs \<and> b \<in> set dir \<and>
        (pathname b = post_jsonKey t i \<and> list_blobs w (post_jsonFolder t @ ''/'') = Some dir \<or>
         pathname b = put_jsonKey t i \<and> list_blobs w (put_jsonFolder t @ ''/'') = Some dir)
        \<longrightarrow> b \<in> set (jsonFiles blobs))"
proof -
  note fp = folderPaths_gallery_normal [OF assms(2)]
  have folders: "post_jsonFolder t = ''gallery-gallery''"
    "put_jsonFolder ''gallery'' = ''gallery-gallery''"
    "put_jsonFolder ''normal'' = ''gallery-normal''"
    "post_jsonFolder ''normal'' \<noteq> put_jsonFolder ''normal''"
    using assms(1) by (auto simp: post_jsonFolder_def put_jsonFolder_def)
  have put_t: "put_jsonFolder t = ''gallery-gallery'' \<or> put_jsonFolder t = ''gallery-normal''"
    using assms(1) by (auto simp: put_jsonFolder_def)
  have listed: "b \<in> set (jsonFiles blobs)"
    if a: "allBlobs w (folderPaths t') = Some blobs" and b: "b \<in> set dir"
      and k: "pathname b = post_jsonKey t i \<and> list_blobs w (post_jsonFolder t @ ''/'') = Some dir \<or>
         pathname b = put_jsonKey t i \<and> list_blobs w (put_jsonFolder t @ ''/'') = Some dir"
    for w blobs dir b
  proof -
    from allBlobs_two [OF a [unfolded fp]] obtain l1 l2
      where l: "list_blobs w (''gallery-gallery'' @ ''/'') = Some l1"
        "list_blobs w (''gallery-normal'' @ ''/'') = Some l2" "blobs = l1 @ l2"
      by blast
    from k jsonKey_endsWith [of t i] have e: "endsWith (pathname b) ''.json''" by auto
    from k folders(1) put_t l(1,2) have "dir = l1 \<or> dir = l2" by auto
    with b l(3) have "b \<in> set blobs" by auto
    with e show ?thesis by (simp add: jsonFiles_def)
  qed
  from folders put_t fp listed show ?thesis by auto
qed

lemma allBlobs_legacy_world:
  "allBlobs legacy_world (folderPaths ''gallery'') =
     Some [\<lparr> pathname = ''gallery-normal/a1.json'', url = ''a1.json'' \<rparr>]"
  by (simp add: legacy_world_def sample_world_def folderPaths_def)

theorem C10_written_blob_listed_witness:
  "put_jsonKey ''normal'' ''a1'' = ''gallery-normal/a1.json'' \<and>
   list_blobs legacy_world (put_jsonFolder ''normal'' @ ''/'')
     = Some [\<lparr> pathname = ''gallery-normal/a1.json'', url = ''a1.json'' \<rparr>] \<and>
   \<lparr> pathname = ''gallery-normal/a1.json'', url = ''a1.json'' \<rparr>
     \<in> set (jsonFiles (the (allBlobs legacy_world (folderPaths ''gallery'')))) \<and>
   map item_id (listed legacy_world gallery_request) = [''a1'']"
proof -
  let ?b = "\<lparr> pathname = ''gallery-normal/a1.json'', url = ''a1.json'' \<rparr>"
  have k: "put_jsonKey ''normal'' ''a1'' = ''gallery-normal/a1.json''"
    by (simp add: put_jsonKey_def put_jsonFolder_def)
  have d: "list_blobs legacy_world (put_jsonFolder ''normal'' @ ''/'') = Some [?b]"
    by (simp add: put_jsonFolder_def legacy_world_def sample_world_def)
  have n: "''normal'' = ''gallery'' \<or> ''normal'' = ''normal''"
    and g: "''gallery'' = ''gallery'' \<or> ''gallery'' = ''normal''" by simp_all
  from C10_written_blob_listed [OF n g, of "''a1''"]
  have "\<forall>w blobs dir b.
        allBlobs w (folderPaths ''gallery'') = Some blobs \<and> b \<in> set dir \<and>
        (pathname b = post_jsonKey ''normal'' ''a1'' \<and>
           list_blobs w (post_jsonFolder ''normal'' @ ''/'') = Some dir \<or>
         pathname b = put_jsonKey ''normal'' ''a1'' \<and>
           list_blobs w (put_jsonFolder ''normal'' @ ''/'') = Some dir)
        \<longrightarrow> b \<in> set (jsonFiles blobs)"
    by (elim conjE)
  from this [rule_format, of legacy_world "[?b]" ?b "[?b]"] allBlobs_legacy_world k d
  have m: "?b \<in> set (jsonFiles (the (allBlobs legacy_world (folderPaths ''gallery''))))"
    by simp
  have l: "map item_id (listed legacy_world gallery_request) = [''a1'']"
    by (simp add: eval_defs sample_defs legacy_world_def)
  from k d m l show ?thesis by blast
qed

end
